theory Spec2Isabelle
  imports Main "HOL-Library.Char_ord" "HOL-Library.List_Lexorder"
begin

section \<open>JavaScript strings\<close>

text \<open>
  A JavaScript string is a sequence of UTF-16 code units. The model uses \<^typ>\<open>string\<close>,
  one \<^typ>\<open>char\<close> per code unit, so it covers the texts whose code units are below 256.
  Indices, lengths and \<open>substring\<close> count code units, as the source does.
\<close>

text \<open>The class \<^verbatim>\<open>\w\<close> of a JavaScript regular expression: \<^verbatim>\<open>[A-Za-z0-9_]\<close>.\<close>

definition isWordChar :: "char \<Rightarrow> bool" where
  "isWordChar c \<longleftrightarrow>
     (CHR ''a'' \<le> c \<and> c \<le> CHR ''z'') \<or> (CHR ''A'' \<le> c \<and> c \<le> CHR ''Z'') \<or>
     (CHR ''0'' \<le> c \<and> c \<le> CHR ''9'') \<or> c = CHR ''_''"

text \<open>
  The class \<^verbatim>\<open>\s\<close>, which is also what \<^verbatim>\<open>String.prototype.trim\<close> strips: tab, line feed,
  vertical tab, form feed, carriage return, space and, below 256, the no-break space.
\<close>

definition isWhiteSpace :: "char \<Rightarrow> bool" where
  "isWhiteSpace c \<longleftrightarrow> c \<in> set [CHR 0x09, CHR 0x0A, CHR 0x0B, CHR 0x0C, CHR 0x0D, CHR 0x20, CHR 0xA0]"

definition startsWith :: "string \<Rightarrow> string \<Rightarrow> bool" where
  "startsWith s p \<longleftrightarrow> take (length p) s = p"

text \<open>\<^verbatim>\<open>s.substring(a, b)\<close>: the arguments are swapped when \<open>a > b\<close> and clamped to the length.\<close>

definition substring :: "string \<Rightarrow> nat \<Rightarrow> nat \<Rightarrow> string" where
  "substring s a b = take (max a b - min a b) (drop (min a b) s)"

definition trim :: "string \<Rightarrow> string" where
  "trim s = rev (dropWhile isWhiteSpace (rev (dropWhile isWhiteSpace s)))"

text \<open>\<^verbatim>\<open>xs.join(sep)\<close>\<close>

fun join :: "string \<Rightarrow> string list \<Rightarrow> string" where
  "join sep [] = []"
| "join sep [x] = x"
| "join sep (x # y # ys) = x @ sep @ join sep (y # ys)"

text \<open>\<^verbatim>\<open>s.split('\n')\<close>: always at least one piece.\<close>

fun splitLines :: "string \<Rightarrow> string list" where
  "splitLines [] = [[]]"
| "splitLines (c # cs) =
     (if c = CHR 0x0A then [] # splitLines cs
      else (case splitLines cs of l # ls \<Rightarrow> (c # l) # ls | [] \<Rightarrow> [[c]]))"

text \<open>A single quote next to the end of a string literal is written apart.\<close>

abbreviation apostrophe :: string where
  "apostrophe \<equiv> [CHR 0x27]"

text \<open>
  The numbers of the program are IEEE doubles. The model takes the integers among them and
  reads them as \<^typ>\<open>int\<close>; it is the program's arithmetic and the program's print on the safe
  integers, those of magnitude below \<open>2\<^sup>5\<^sup>3\<close>: there a sum or difference that is itself safe
  is exact, and a number in a template literal is its digits. Beyond them the program
  rounds and, from \<open>10\<^sup>2\<^sup>1\<close> on, prints an exponent, which the model does not follow; a
  property that rests on the value or the print of a number states the range.
\<close>

definition safeInteger :: "int \<Rightarrow> bool" where
  "safeInteger n \<longleftrightarrow> - (2 ^ 53) < n \<and> n < 2 ^ 53"

definition digitChar :: "nat \<Rightarrow> char" where
  "digitChar d = char_of (48 + d)"

function showNat :: "nat \<Rightarrow> string" where
  "showNat n = (if n < 10 then [digitChar n] else showNat (n div 10) @ [digitChar (n mod 10)])"
  by pat_completeness auto
termination
  by (relation "measure id") auto

declare showNat.simps [simp del]

definition showInt :: "int \<Rightarrow> string" where
  "showInt i = (if i < 0 then CHR ''-'' # showNat (nat (- i)) else showNat (nat i))"

section \<open>Data model (core/types.ts)\<close>

datatype type_kind = Interface | TypeAlias | Enum | Class

record location =
  line :: int
  column :: int

record property_info =
  prop_name :: string
  prop_type :: string
  optional :: bool
  readonly :: bool
  prop_documentation :: "string option"

text \<open>\<open>astNode\<close> is never read by the code modelled here and is left out.\<close>

record extracted_type =
  name :: string
  kind :: type_kind
  definitionText :: string
  sourceFile :: string
  location :: location
  isExported :: bool
  documentation :: "string option"
  properties :: "property_info list option"
  typeParameters :: "string list option"
  extends :: "string list option"

text \<open>
  Of \<open>ExtractionRules\<close> the core reads \<open>apiId\<close> and \<open>excludeTypes\<close> only; transforms,
  validators and naming belong to the adapter.
\<close>

record extraction_rules =
  apiId :: string
  excludeTypes :: "string list option"

record extraction_metrics =
  startTime :: int
  filesParsed :: int
  typesExtracted :: int
  transformsApplied :: int
  validationsPassed :: int
  validationsFailed :: int
  anyTypeViolations :: int

text \<open>The object that \<open>addError\<close> pushes: \<^verbatim>\<open>{ file, message, type, line, column }\<close>.\<close>

record extraction_error =
  err_file :: string
  message :: string
  err_type :: "string option"
  err_line :: "int option"
  err_column :: "int option"

text \<open>
  \<open>types\<close> is a \<^verbatim>\<open>Map<string, ExtractedType>\<close>: an association list in insertion order with
  one entry per key.
\<close>

record extraction_context =
  sourceFiles :: "string list"
  types :: "(string \<times> extracted_type) list"
  rules :: extraction_rules
  metrics :: extraction_metrics
  errors :: "extraction_error list"

text \<open>\<^verbatim>\<open>map.set(k, v)\<close>: an existing key keeps its place.\<close>

fun mapSet :: "(string \<times> 'v) list \<Rightarrow> string \<Rightarrow> 'v \<Rightarrow> (string \<times> 'v) list" where
  "mapSet [] k v = [(k, v)]"
| "mapSet ((k', v') # m) k v = (if k' = k then (k, v) # m else (k', v') # mapSet m k v)"

text \<open>
  A stage of the pipeline works on the one shared context and either completes or throws;
  the context as it stands at the throw stays reachable.
\<close>

datatype outcome =
    is_Done: Done (resultContext: extraction_context)
  | Thrown (thrownMessage: string) (thrownContext: extraction_context)

definition addError ::
  "extraction_context \<Rightarrow> string \<Rightarrow> string \<Rightarrow> string option \<Rightarrow> int option \<Rightarrow> int option
     \<Rightarrow> extraction_context" where
  "addError ctx f msg ty ln col =
     ctx\<lparr>errors := errors ctx @
       [\<lparr>err_file = f, message = msg, err_type = ty, err_line = ln, err_column = col\<rparr>]\<rparr>"

section \<open>Forbidden-type guard (BaseTypeExtractor.detectAnyTypes)\<close>

record any_occurrence =
  occ_context :: string
  occ_line :: "int option"
  occ_column :: "int option"

text \<open>
  \<^verbatim>\<open>/\b(any)\b(?![\w])/\<close> tried at one position: \<open>prevWord\<close> says whether the code unit before
  the position is a word character (false at the start of the text).
\<close>

definition anyMatchAt :: "bool \<Rightarrow> string \<Rightarrow> bool" where
  "anyMatchAt prevWord s \<longleftrightarrow>
     \<not> prevWord \<and> take 3 s = ''any'' \<and>
     (case drop 3 s of [] \<Rightarrow> True | d # _ \<Rightarrow> \<not> isWordChar d)"

text \<open>
  The \<^verbatim>\<open>while ((match = anyRegex.exec(definition)) !== null)\<close> loop with the \<^verbatim>\<open>g\<close> flag:
  the start indices of the matches from left to right; after a match the search goes on
  behind it.
\<close>

fun anyIndices :: "bool \<Rightarrow> nat \<Rightarrow> string \<Rightarrow> nat list" where
  "anyIndices prevWord i [] = []"
| "anyIndices prevWord i (c # cs) =
     (if anyMatchAt prevWord (c # cs) then i # anyIndices True (i + 3) (drop 2 cs)
      else anyIndices (isWordChar c) (i + 1) cs)"

definition findAnyInDefinition :: "string \<Rightarrow> any_occurrence list" where
  "findAnyInDefinition def =
     map (\<lambda>index.
            let startIndex = (if index < 20 then 0 else index - 20);
                endIndex = min (length def) (index + 20)
            in \<lparr>occ_context = substring def startIndex endIndex,
                occ_line = None, occ_column = None\<rparr>)
         (anyIndices False 0 def)"

definition anyViolationMessage :: "string \<Rightarrow> any_occurrence \<Rightarrow> string" where
  "anyViolationMessage nm occurrence =
     ''Type '' @ apostrophe @ nm @ apostrophe @ '' contains 'any' type: '' @
     occ_context occurrence @
     ''. Use a specific type or branded unknown instead.''"

fun detectAnyLoop :: "(string \<times> extracted_type) list \<Rightarrow> extraction_context \<Rightarrow> outcome" where
  "detectAnyLoop [] ctx = Done ctx"
| "detectAnyLoop ((nm, extractedType) # rest) ctx =
     (let anyOccurrences = findAnyInDefinition (definitionText extractedType) in
      if length anyOccurrences > 0 then
        let ctx1 = ctx\<lparr>metrics := (metrics ctx)\<lparr>anyTypeViolations :=
                      anyTypeViolations (metrics ctx) + 1\<rparr>\<rparr>;
            ctx2 = foldl (\<lambda>c occurrence.
                      addError c (sourceFile extractedType) (anyViolationMessage nm occurrence)
                        (Some ''any-type-violation'') (occ_line occurrence) (occ_column occurrence))
                     ctx1 anyOccurrences
        in Thrown (''Extraction failed: '' @ showInt (int (length anyOccurrences)) @
                   '' 'any' type violations found. See errors for details.'') ctx2
      else detectAnyLoop rest ctx)"

definition detectAnyTypes :: "extraction_context \<Rightarrow> outcome" where
  "detectAnyTypes ctx = detectAnyLoop (types ctx) ctx"

section \<open>Declaration extractor (BaseTypeExtractor on ts-morph)\<close>

text \<open>
  The parser is ts-morph; the model takes what the extractor reads of its nodes. A property
  signature: its name, the text of its type node when it has one, the kind name of its
  parent, its modifiers and the descriptions of its JSDoc blocks.
\<close>

record property_signature =
  sig_getName :: string
  sig_typeNodeText :: "string option"
  sig_parentKindName :: "string option"
  hasQuestionToken :: bool
  isReadonly :: bool
  sig_getJsDocs :: "string list"

record decl_node =
  getFullText :: string
  getStartLineNumber :: int
  getStartLinePos :: int
  node_isExported :: bool
  getJsDocs :: "string list"
  getTypeParameters :: "string list"

record interface_declaration = decl_node +
  iface_getName :: string
  getProperties :: "property_signature list"
  iface_getExtends :: "string list"

record type_alias_declaration = decl_node +
  alias_getName :: string

record enum_declaration = decl_node +
  enum_getName :: string

record class_declaration = decl_node +
  class_getName :: "string option"
  class_getExtends :: "string option"

text \<open>A source file: its path and its top-level declarations by kind, in source order.\<close>

record source_file =
  getFilePath :: string
  getInterfaces :: "interface_declaration list"
  getTypeAliases :: "type_alias_declaration list"
  getEnums :: "enum_declaration list"
  getClasses :: "class_declaration list"

text \<open>The methods an adapter supplies; \<open>shouldExtractClass\<close> of the base class rejects all.\<close>

record adapter =
  applyTransformations :: "extraction_context \<Rightarrow> outcome"
  validateTypes :: "extraction_context \<Rightarrow> outcome"
  shouldExtractClass :: "class_declaration \<Rightarrow> bool"

definition base_shouldExtractClass :: "class_declaration \<Rightarrow> bool" where
  "base_shouldExtractClass node = False"

text \<open>The context the constructor builds; \<open>now\<close> is its reading of \<^verbatim>\<open>Date.now()\<close>.\<close>

definition newContext :: "extraction_rules \<Rightarrow> int \<Rightarrow> extraction_context" where
  "newContext r now =
     \<lparr>sourceFiles = [], types = [], rules = r,
      metrics = \<lparr>startTime = now, filesParsed = 0, typesExtracted = 0, transformsApplied = 0,
                 validationsPassed = 0, validationsFailed = 0, anyTypeViolations = 0\<rparr>,
      errors = []\<rparr>"

text \<open>\<^verbatim>\<open>this.context.rules.excludeTypes?.includes(name)\<close>\<close>

definition isExcluded :: "extraction_context \<Rightarrow> string \<Rightarrow> bool" where
  "isExcluded ctx nm =
     (case excludeTypes (rules ctx) of None \<Rightarrow> False | Some xs \<Rightarrow> nm \<in> set xs)"

definition createBrandedUnknown :: "string \<Rightarrow> string \<Rightarrow> string" where
  "createBrandedUnknown context_tag detail =
     ''unknown & { readonly __brand: '' @ apostrophe @ context_tag @ apostrophe @
     ''; readonly __context: '' @ apostrophe @ detail @ apostrophe @ '' }''"

text \<open>\<^verbatim>\<open>typeString.replace(/\bany\b/g, () => replacement)\<close>\<close>

fun replaceAnyFrom :: "bool \<Rightarrow> string \<Rightarrow> string \<Rightarrow> string" where
  "replaceAnyFrom prevWord replacement [] = []"
| "replaceAnyFrom prevWord replacement (c # cs) =
     (if anyMatchAt prevWord (c # cs) then replacement @ replaceAnyFrom True replacement (drop 2 cs)
      else c # replaceAnyFrom (isWordChar c) replacement cs)"

definition replaceSenseAnyTypes :: "string \<Rightarrow> string \<Rightarrow> string" where
  "replaceSenseAnyTypes typeString context_tag =
     replaceAnyFrom False (createBrandedUnknown ''replaced-any'' context_tag) typeString"

definition getPropertyTypeString :: "property_signature \<Rightarrow> string" where
  "getPropertyTypeString prop =
     (case sig_typeNodeText prop of
        None \<Rightarrow> createBrandedUnknown ''property'' (sig_getName prop)
      | Some typeString \<Rightarrow>
          if typeString = ''any'' then
            let propertyName = sig_getName prop;
                interfaceName = (case sig_parentKindName prop of
                                   None \<Rightarrow> ''unknown''
                                 | Some k \<Rightarrow> if k = [] then ''unknown'' else k)
            in createBrandedUnknown ''property'' (interfaceName @ ''.'' @ propertyName)
          else replaceSenseAnyTypes typeString (sig_getName prop))"

text \<open>\<open>getJSDoc\<close>: the trimmed description of the first JSDoc block.\<close>

definition getJSDoc :: "string list \<Rightarrow> string option" where
  "getJSDoc jsDocs = (case jsDocs of [] \<Rightarrow> None | d # _ \<Rightarrow> Some (trim d))"

definition extractProperties :: "interface_declaration \<Rightarrow> property_info list" where
  "extractProperties node =
     map (\<lambda>prop. \<lparr>prop_name = sig_getName prop, prop_type = getPropertyTypeString prop,
                   optional = hasQuestionToken prop, readonly = isReadonly prop,
                   prop_documentation = getJSDoc (sig_getJsDocs prop)\<rparr>)
         (getProperties node)"

text \<open>The last two statements of every \<open>extract...\<close> method.\<close>

definition storeType :: "extraction_context \<Rightarrow> extracted_type \<Rightarrow> extraction_context" where
  "storeType ctx extractedType =
     ctx\<lparr>types := mapSet (types ctx) (name extractedType) extractedType,
         metrics := (metrics ctx)\<lparr>typesExtracted := typesExtracted (metrics ctx) + 1\<rparr>\<rparr>"

definition extractInterface ::
  "source_file \<Rightarrow> extraction_context \<Rightarrow> interface_declaration \<Rightarrow> extraction_context" where
  "extractInterface sf ctx node =
     (let nm = iface_getName node in
      if isExcluded ctx nm then ctx
      else storeType ctx
        \<lparr>name = nm, kind = Interface, definitionText = getFullText node,
         sourceFile = getFilePath sf,
         location = \<lparr>line = getStartLineNumber node, column = getStartLinePos node\<rparr>,
         isExported = node_isExported node, documentation = getJSDoc (getJsDocs node),
         properties = Some (extractProperties node),
         typeParameters = Some (getTypeParameters node),
         extends = Some (iface_getExtends node)\<rparr>)"

definition extractTypeAlias ::
  "source_file \<Rightarrow> extraction_context \<Rightarrow> type_alias_declaration \<Rightarrow> extraction_context" where
  "extractTypeAlias sf ctx node =
     (let nm = alias_getName node in
      if isExcluded ctx nm then ctx
      else storeType ctx
        \<lparr>name = nm, kind = TypeAlias, definitionText = getFullText node,
         sourceFile = getFilePath sf,
         location = \<lparr>line = getStartLineNumber node, column = getStartLinePos node\<rparr>,
         isExported = node_isExported node, documentation = getJSDoc (getJsDocs node),
         properties = None,
         typeParameters = Some (getTypeParameters node),
         extends = None\<rparr>)"

definition extractEnum ::
  "source_file \<Rightarrow> extraction_context \<Rightarrow> enum_declaration \<Rightarrow> extraction_context" where
  "extractEnum sf ctx node =
     (let nm = enum_getName node in
      if isExcluded ctx nm then ctx
      else storeType ctx
        \<lparr>name = nm, kind = Enum, definitionText = getFullText node,
         sourceFile = getFilePath sf,
         location = \<lparr>line = getStartLineNumber node, column = getStartLinePos node\<rparr>,
         isExported = node_isExported node, documentation = getJSDoc (getJsDocs node),
         properties = None, typeParameters = None, extends = None\<rparr>)"

text \<open>\<^verbatim>\<open>node.getName() || 'AnonymousClass'\<close>: a missing or empty name gives the sentinel.\<close>

definition classNameOf :: "class_declaration \<Rightarrow> string" where
  "classNameOf node =
     (case class_getName node of None \<Rightarrow> ''AnonymousClass''
      | Some n \<Rightarrow> if n = [] then ''AnonymousClass'' else n)"

definition extractClass ::
  "source_file \<Rightarrow> extraction_context \<Rightarrow> class_declaration \<Rightarrow> extraction_context" where
  "extractClass sf ctx node =
     (let nm = classNameOf node in
      if isExcluded ctx nm then ctx
      else storeType ctx
        \<lparr>name = nm, kind = Class, definitionText = getFullText node,
         sourceFile = getFilePath sf,
         location = \<lparr>line = getStartLineNumber node, column = getStartLinePos node\<rparr>,
         isExported = node_isExported node, documentation = getJSDoc (getJsDocs node),
         properties = None,
         typeParameters = Some (getTypeParameters node),
         extends = (case class_getExtends node of None \<Rightarrow> None | Some e \<Rightarrow> Some [e])\<rparr>)"

definition parseFile :: "adapter \<Rightarrow> extraction_context \<Rightarrow> source_file \<Rightarrow> extraction_context" where
  "parseFile ad ctx sf =
     (let ctx0 = ctx\<lparr>metrics := (metrics ctx)\<lparr>filesParsed := filesParsed (metrics ctx) + 1\<rparr>\<rparr>;
          ctx1 = foldl (extractInterface sf) ctx0 (getInterfaces sf);
          ctx2 = foldl (extractTypeAlias sf) ctx1 (getTypeAliases sf);
          ctx3 = foldl (extractEnum sf) ctx2 (getEnums sf)
      in foldl (\<lambda>c classDecl. if shouldExtractClass ad classDecl then extractClass sf c classDecl
                               else c)
           ctx3 (getClasses sf))"

text \<open>
  The \<^verbatim>\<open>Project\<close> of the parser, of which the extractor uses three things: it makes one in its
  constructor, it adds the file at a path, which completes or throws, and it asks for the
  source files, which come in the order in which the parser hands them out. \<open>'p\<close> is the
  state of a project; a call that throws leaves a project behind as well.
\<close>

datatype 'p add_result = Added 'p | AddThrown string 'p

record 'p parser =
  newProject :: 'p
  addSourceFileAtPath :: "'p \<Rightarrow> string \<Rightarrow> 'p add_result"
  getSourceFiles :: "'p \<Rightarrow> source_file list"

text \<open>
  The two fields of an extractor, \<^verbatim>\<open>this.context\<close> and \<^verbatim>\<open>this.project\<close>. They are set by the
  constructor and live on from one call of \<open>extract\<close> to the next.
\<close>

record 'p extractor =
  extractor_context :: extraction_context
  extractor_project :: 'p

definition newExtractor :: "'p parser \<Rightarrow> extraction_rules \<Rightarrow> int \<Rightarrow> 'p extractor" where
  "newExtractor ps r now =
     \<lparr>extractor_context = newContext r now, extractor_project = newProject ps\<rparr>"

text \<open>The first loop of \<open>extract\<close>: it stops at the first file that cannot be added.\<close>

fun addSourceFiles :: "'p parser \<Rightarrow> string list \<Rightarrow> 'p \<Rightarrow> 'p add_result" where
  "addSourceFiles ps [] p = Added p"
| "addSourceFiles ps (f # fs) p =
     (case addSourceFileAtPath ps p f of
        AddThrown msg p' \<Rightarrow> AddThrown msg p'
      | Added p' \<Rightarrow> addSourceFiles ps fs p')"

definition andThen :: "outcome \<Rightarrow> (extraction_context \<Rightarrow> outcome) \<Rightarrow> outcome" where
  "andThen r f = (case r of Done c \<Rightarrow> f c | Thrown msg c \<Rightarrow> Thrown msg c)"

text \<open>
  The \<^verbatim>\<open>try\<close> block of \<open>extract\<close>, from the context and the project as they stand: how the
  block ends, and the project it leaves.
\<close>

definition extractTry ::
  "'p parser \<Rightarrow> adapter \<Rightarrow> string list \<Rightarrow> extraction_context \<Rightarrow> 'p \<Rightarrow> outcome \<times> 'p" where
  "extractTry ps ad files ctx p =
     (case addSourceFiles ps files p of
        AddThrown msg p' \<Rightarrow> (Thrown msg ctx, p')
      | Added p' \<Rightarrow>
          (andThen (andThen (applyTransformations ad
                               (foldl (parseFile ad) ctx (getSourceFiles ps p')))
                            (validateTypes ad))
                   detectAnyTypes,
           p'))"

text \<open>
  \<open>extract\<close> (here \<open>extract_types\<close>) on an extractor, new or used before: it stores the paths
  in the context, runs the \<^verbatim>\<open>try\<close> block, and its \<^verbatim>\<open>catch\<close> turns whatever was thrown into
  one more error entry. The first component is what the caller of \<open>extract\<close> sees, \<open>Done\<close>
  being a normal return with the context; the second is the extractor after the call.
\<close>

definition extract_types ::
  "'p parser \<Rightarrow> adapter \<Rightarrow> string list \<Rightarrow> 'p extractor \<Rightarrow> outcome \<times> 'p extractor" where
  "extract_types ps ad files ex =
     (case extractTry ps ad files ((extractor_context ex)\<lparr>sourceFiles := files\<rparr>)
             (extractor_project ex) of
        (Done c, p) \<Rightarrow> (Done c, \<lparr>extractor_context = c, extractor_project = p\<rparr>)
      | (Thrown msg c, p) \<Rightarrow>
          (let c' = addError c [] (''Extraction failed: '' @ msg) None None None
           in (Done c', \<lparr>extractor_context = c', extractor_project = p\<rparr>)))"

section \<open>Property types of the first extractor (core/extractor.ts)\<close>

datatype type_node =
    StringKeyword | NumberKeyword | BooleanKeyword | AnyKeyword | UnknownKeyword
  | TypeLiteral "member list"
  | ArrayType type_node
  | UnionType "type_node list"
  | OtherType string
and member =
    PropertySignature string bool "type_node option"
  | OtherMember

fun typeNodeToString :: "type_node \<Rightarrow> string"
and typeLiteralMembers :: "member list \<Rightarrow> string list"
and typeNodesToStrings :: "type_node list \<Rightarrow> string list" where
  "typeNodeToString StringKeyword = ''string''"
| "typeNodeToString NumberKeyword = ''number''"
| "typeNodeToString BooleanKeyword = ''boolean''"
| "typeNodeToString AnyKeyword = ''unknown''"
| "typeNodeToString UnknownKeyword = ''unknown''"
| "typeNodeToString (TypeLiteral ms) = ''{ '' @ join ''; '' (typeLiteralMembers ms) @ '' }''"
| "typeNodeToString (ArrayType elementType) = typeNodeToString elementType @ ''[]''"
| "typeNodeToString (UnionType ts) = join '' | '' (typeNodesToStrings ts)"
| "typeNodeToString (OtherType txt) = txt"
| "typeLiteralMembers [] = []"
| "typeLiteralMembers (PropertySignature nm opt ty # ms) =
     (nm @ (if opt then ''?'' else []) @ '': '' @
        (case ty of Some t \<Rightarrow> typeNodeToString t | None \<Rightarrow> ''unknown'')) # typeLiteralMembers ms"
| "typeLiteralMembers (OtherMember # ms) = typeLiteralMembers ms"
| "typeNodesToStrings [] = []"
| "typeNodesToStrings (t # ts) = typeNodeToString t # typeNodesToStrings ts"

definition getPropertyType :: "type_node option \<Rightarrow> string" where
  "getPropertyType member_type =
     (case member_type of None \<Rightarrow> ''unknown'' | Some t \<Rightarrow> typeNodeToString t)"

section \<open>What the program takes from its platform\<close>

text \<open>One reading of the clock: \<^verbatim>\<open>Date.now()\<close> and \<^verbatim>\<open>new Date().toISOString()\<close>.\<close>

record clock =
  dateNow :: int
  toISOString :: string

text \<open>The object that \<open>generateExtractionMap\<close> serialises.\<close>

record extraction_map =
  em_version :: string
  em_generated :: string
  em_api :: string
  em_apiVersion :: "string option"
  em_types :: "(string \<times> string list) list"

text \<open>
  Library functions whose result the program only passes on: \<^verbatim>\<open>path.dirname\<close>,
  \<^verbatim>\<open>path.resolve\<close>, \<^verbatim>\<open>String.prototype.localeCompare\<close> (negative, zero or positive) and
  \<^verbatim>\<open>JSON.stringify(map, null, 2)\<close>.
\<close>

record platform =
  dirname :: "string \<Rightarrow> string"
  resolve :: "string \<Rightarrow> string \<Rightarrow> string"
  localeCompare :: "string \<Rightarrow> string \<Rightarrow> int"
  jsonStringify :: "extraction_map \<Rightarrow> string"

text \<open>
  The file system: the content of every file and the directories made. Paths are compared
  as they are written. Reading a path that holds no file throws; failures of writing are
  not modelled.
\<close>

record filesystem =
  files :: "string \<rightharpoonup> string"
  dirs :: "string set"

definition mkdirSync :: "filesystem \<Rightarrow> string \<Rightarrow> filesystem" where
  "mkdirSync fs dir = fs\<lparr>dirs := insert dir (dirs fs)\<rparr>"

definition existsSync :: "filesystem \<Rightarrow> string \<Rightarrow> bool" where
  "existsSync fs p \<longleftrightarrow> files fs p \<noteq> None \<or> p \<in> dirs fs"

definition readFileSync :: "filesystem \<Rightarrow> string \<Rightarrow> string option" where
  "readFileSync fs p = files fs p"

definition writeFileSync :: "filesystem \<Rightarrow> string \<Rightarrow> string \<Rightarrow> filesystem" where
  "writeFileSync fs p content = fs\<lparr>files := (files fs)(p \<mapsto> content)\<rparr>"

text \<open>An optional string in a condition, and \<^verbatim>\<open>x || fallback\<close>: the empty string is falsy.\<close>

definition truthy :: "string option \<Rightarrow> bool" where
  "truthy x = (case x of None \<Rightarrow> False | Some v \<Rightarrow> v \<noteq> [])"

definition orElse :: "string option \<Rightarrow> string \<Rightarrow> string" where
  "orElse x fallback = (case x of None \<Rightarrow> fallback | Some v \<Rightarrow> if v = [] then fallback else v)"

text \<open>The check mark U+2705 of the fixed compliance lines, as its three UTF-8 bytes.\<close>

definition checkMark :: string where
  "checkMark = [CHR 0xE2, CHR 0x9C, CHR 0x85]"

text \<open>
  \<^verbatim>\<open>xs.sort((a, b) => cmp(a, b))\<close>: the sort is stable, so an element goes behind the ones it
  does not precede.
\<close>

fun insertBy :: "('a \<Rightarrow> 'a \<Rightarrow> int) \<Rightarrow> 'a \<Rightarrow> 'a list \<Rightarrow> 'a list" where
  "insertBy cmp x [] = [x]"
| "insertBy cmp x (y # ys) = (if cmp x y < 0 then x # y # ys else y # insertBy cmp x ys)"

definition sortBy :: "('a \<Rightarrow> 'a \<Rightarrow> int) \<Rightarrow> 'a list \<Rightarrow> 'a list" where
  "sortBy cmp xs = foldl (\<lambda>acc x. insertBy cmp x acc) [] xs"

record type_groups =
  g_interface :: "extracted_type list"
  g_type :: "extracted_type list"
  g_enum :: "extracted_type list"
  g_class :: "extracted_type list"

section \<open>General-purpose generator (TypeGenerator)\<close>

record output_config =
  outputDir :: string
  filePattern :: string
  generateIndex :: bool
  splitTypes :: bool
  header :: "string option"
  sourceMaps :: bool

definition generateProperty :: "property_info \<Rightarrow> string" where
  "generateProperty prop =
     (if truthy (prop_documentation prop)
      then ''  /** '' @ the (prop_documentation prop) @ '' */\<newline>'' else []) @
     ''  '' @ (if readonly prop then ''readonly '' else []) @ prop_name prop @
     (if optional prop then ''?'' else []) @ '': '' @ prop_type prop @ '';\<newline>''"

definition generateInterface :: "extracted_type \<Rightarrow> string" where
  "generateInterface ty =
     (if isExported ty then ''export '' else []) @
     ''interface '' @ name ty @
     (case typeParameters ty of
        Some tps \<Rightarrow> if length tps > 0 then ''<'' @ join '', '' tps @ ''>'' else []
      | None \<Rightarrow> []) @
     (case extends ty of
        Some es \<Rightarrow> if length es > 0 then '' extends '' @ join '', '' es else []
      | None \<Rightarrow> []) @
     '' {\<newline>'' @
     (case properties ty of Some ps \<Rightarrow> concat (map generateProperty ps) | None \<Rightarrow> []) @
     ''}''"

definition generateTypeAlias :: "extracted_type \<Rightarrow> string" where
  "generateTypeAlias ty =
     (if isExported ty \<and> \<not> startsWith (definitionText ty) ''export''
      then ''export '' @ definitionText ty else definitionText ty)"

definition generateEnum :: "extracted_type \<Rightarrow> string" where
  "generateEnum ty =
     (if isExported ty \<and> \<not> startsWith (definitionText ty) ''export''
      then ''export '' @ definitionText ty else definitionText ty)"

definition generateClass :: "extracted_type \<Rightarrow> string" where
  "generateClass ty =
     (if isExported ty \<and> \<not> startsWith (definitionText ty) ''export''
      then ''export '' @ definitionText ty else definitionText ty)"

definition generateType :: "extracted_type \<Rightarrow> string" where
  "generateType ty =
     (if truthy (documentation ty) then
        ''/**\<newline>'' @
        join ''\<newline>'' (map (\<lambda>l. '' * '' @ l) (splitLines (the (documentation ty)))) @
        ''\<newline> * @source '' @ sourceFile ty @ '':'' @ showInt (line (location ty)) @ ''\<newline>'' @
        '' */\<newline>''
      else []) @
     (case kind ty of
        Interface \<Rightarrow> generateInterface ty
      | TypeAlias \<Rightarrow> generateTypeAlias ty
      | Enum \<Rightarrow> generateEnum ty
      | Class \<Rightarrow> generateClass ty)"

definition generateMetadata :: "extraction_context \<Rightarrow> clock \<Rightarrow> string" where
  "generateMetadata ctx clk =
     (let m = metrics ctx; duration = dateNow clk - startTime m in
      concat [
        ''/**\<newline>'',
        '' * Generated TypeScript Types for '', apiId (rules ctx), '' API\<newline>'',
        '' * \<newline>'',
        '' * EXTRACTION METRICS:\<newline>'',
        '' * - Files parsed: '', showInt (filesParsed m), ''\<newline>'',
        '' * - Types extracted: '', showInt (typesExtracted m), ''\<newline>'',
        '' * - Transforms applied: '', showInt (transformsApplied m), ''\<newline>'',
        '' * - Validations passed: '', showInt (validationsPassed m), ''\<newline>'',
        '' * - Validations failed: '', showInt (validationsFailed m), ''\<newline>'',
        '' * - Extraction time: '', showInt duration, ''ms\<newline>'',
        '' * - Generated: '', toISOString clk, ''\<newline>'',
        '' * \<newline>'',
        '' * COMPLIANCE:\<newline>'',
        '' * '', checkMark, '' Zero 'any' usage (converted to 'unknown')\<newline>'',
        '' * '', checkMark, '' All types maintain strict TypeScript compatibility\<newline>'',
        '' * '', checkMark, '' Source locations preserved for traceability\<newline>'',
        '' */\<newline>'',
        ''\<newline>'',
        ''/* eslint-disable @typescript-eslint/no-explicit-any */''])"

definition groupTypesByKind :: "platform \<Rightarrow> (string \<times> extracted_type) list \<Rightarrow> type_groups" where
  "groupTypesByKind pf tys =
     (let byName = (\<lambda>a b. localeCompare pf (name a) (name b));
          vals = map snd tys
      in \<lparr>g_interface = sortBy byName (filter (\<lambda>t. kind t = Interface) vals),
          g_type = sortBy byName (filter (\<lambda>t. kind t = TypeAlias) vals),
          g_enum = sortBy byName (filter (\<lambda>t. kind t = Enum) vals),
          g_class = sortBy byName (filter (\<lambda>t. kind t = Class) vals)\<rparr>)"

text \<open>One of the four blocks of \<open>generateUnifiedFile\<close>, which differ in the title only.\<close>

definition unifiedSection :: "string \<Rightarrow> extracted_type list \<Rightarrow> string" where
  "unifiedSection title grp =
     (if length grp > 0 then
        ''// ============================================================================\<newline>'' @
        ''// '' @ title @ '' ('' @ showInt (int (length grp)) @ '' total)\<newline>'' @
        ''// ============================================================================\<newline>\<newline>'' @
        concat (map (\<lambda>ty. generateType ty @ ''\<newline>\<newline>'') grp)
      else [])"

text \<open>The text that \<open>generateUnifiedFile\<close> builds in \<open>content\<close>.\<close>

definition unifiedContent ::
  "platform \<Rightarrow> output_config \<Rightarrow> extraction_context \<Rightarrow> clock \<Rightarrow> string" where
  "unifiedContent pf cfg ctx clk =
     (let content0 = (if truthy (header cfg) then the (header cfg) @ ''\<newline>\<newline>'' else []);
          content1 = content0 @ generateMetadata ctx clk @ ''\<newline>\<newline>'';
          typesByKind = groupTypesByKind pf (types ctx)
      in content1 @
         unifiedSection ''INTERFACES'' (g_interface typesByKind) @
         unifiedSection ''TYPE ALIASES'' (g_type typesByKind) @
         unifiedSection ''ENUMS'' (g_enum typesByKind) @
         unifiedSection ''CLASSES'' (g_class typesByKind))"

text \<open>
  \<^verbatim>\<open>s.replace(pattern, replacement)\<close> with a string pattern: the first occurrence only, and
  in the replacement \<^verbatim>\<open>$$\<close>, \<^verbatim>\<open>$&\<close>, \<^verbatim>\<open>$`\<close> and \<^verbatim>\<open>$'\<close> stand for a dollar sign, the match, the
  text before it and the text after it.
\<close>

fun getSubstitution :: "string \<Rightarrow> string \<Rightarrow> string \<Rightarrow> string \<Rightarrow> string" where
  "getSubstitution matched pre post [] = []"
| "getSubstitution matched pre post [c] = [c]"
| "getSubstitution matched pre post (c # d # r) =
     (if c = CHR ''$'' \<and> d = CHR ''$'' then CHR ''$'' # getSubstitution matched pre post r
      else if c = CHR ''$'' \<and> d = CHR ''&'' then matched @ getSubstitution matched pre post r
      else if c = CHR ''$'' \<and> d = CHR 0x60 then pre @ getSubstitution matched pre post r
      else if c = CHR ''$'' \<and> d = CHR 0x27 then post @ getSubstitution matched pre post r
      else c # getSubstitution matched pre post (d # r))"

fun replaceFirstFrom :: "string \<Rightarrow> string \<Rightarrow> string \<Rightarrow> string \<Rightarrow> string" where
  "replaceFirstFrom pre pat replacement s =
     (if startsWith s pat
      then pre @ getSubstitution pat pre (drop (length pat) s) replacement @
           drop (length pat) s
      else (case s of [] \<Rightarrow> pre | c # cs \<Rightarrow> replaceFirstFrom (pre @ [c]) pat replacement cs))"

definition replaceFirst :: "string \<Rightarrow> string \<Rightarrow> string \<Rightarrow> string" where
  "replaceFirst s pat replacement = replaceFirstFrom [] pat replacement s"

definition generateUnifiedFile ::
  "platform \<Rightarrow> output_config \<Rightarrow> extraction_context \<Rightarrow> clock \<Rightarrow> filesystem \<Rightarrow> filesystem" where
  "generateUnifiedFile pf cfg ctx clk fs =
     (let fileName = replaceFirst (filePattern cfg) ''{api}'' (apiId (rules ctx));
          filePath = resolve pf (outputDir cfg) fileName
      in writeFileSync fs filePath (unifiedContent pf cfg ctx clk))"

section \<open>Strict contracts generator (RFCCompliantGenerator)\<close>

record rfc_generator_config =
  outputPath :: string
  extractionMapPath :: string
  failOnDrift :: "bool option"
  apiVersion :: "string option"

definition contractDocBlock :: "extracted_type \<Rightarrow> string" where
  "contractDocBlock ty =
     (if truthy (documentation ty) then
        ''  /**\<newline>'' @
        join ''\<newline>'' (map (\<lambda>l. ''   * '' @ l) (splitLines (the (documentation ty)))) @
        ''\<newline>   * @source '' @ sourceFile ty @ '':'' @ showInt (line (location ty)) @ ''\<newline>'' @
        ''   */\<newline>''
      else [])"

definition generatePropertyForContract :: "property_info \<Rightarrow> string" where
  "generatePropertyForContract prop =
     (if truthy (prop_documentation prop)
      then ''    /** '' @ the (prop_documentation prop) @ '' */\<newline>'' else []) @
     ''    '' @ (if readonly prop then ''readonly '' else []) @ prop_name prop @
     (if optional prop then ''?'' else []) @ '': '' @ prop_type prop @ '';\<newline>''"

definition generateInterfaceForContract :: "extracted_type \<Rightarrow> string" where
  "generateInterfaceForContract ty =
     contractDocBlock ty @
     ''  export interface '' @ name ty @
     (case typeParameters ty of
        Some tps \<Rightarrow> if length tps > 0 then ''<'' @ join '', '' tps @ ''>'' else []
      | None \<Rightarrow> []) @
     (case extends ty of
        Some es \<Rightarrow> if length es > 0 then '' extends '' @ join '', '' es else []
      | None \<Rightarrow> []) @
     '' {\<newline>'' @
     (case properties ty of
        Some ps \<Rightarrow> concat (map generatePropertyForContract ps) | None \<Rightarrow> []) @
     ''  }\<newline>''"

definition generateTypeAliasForContract :: "extracted_type \<Rightarrow> string" where
  "generateTypeAliasForContract ty =
     (let lines = splitLines (trim (definitionText ty)) in
      contractDocBlock ty @
      ''  export '' @ hd lines @ concat (map (\<lambda>l. ''\<newline>  '' @ l) (tl lines)) @ ''\<newline>'')"

definition generateEnumForContract :: "extracted_type \<Rightarrow> string" where
  "generateEnumForContract ty =
     (let lines = splitLines (trim (definitionText ty)) in
      contractDocBlock ty @
      ''  export '' @ hd lines @ concat (map (\<lambda>l. ''\<newline>  '' @ l) (tl lines)) @ ''\<newline>'')"

text \<open>\<open>groupTypesByKind\<close> of the contracts generator: classes are skipped.\<close>

definition groupTypesByKindForContract ::
  "platform \<Rightarrow> (string \<times> extracted_type) list \<Rightarrow> type_groups" where
  "groupTypesByKindForContract pf tys =
     (let byName = (\<lambda>a b. localeCompare pf (name a) (name b));
          vals = filter (\<lambda>t. kind t \<noteq> Class) (map snd tys)
      in \<lparr>g_interface = sortBy byName (filter (\<lambda>t. kind t = Interface) vals),
          g_type = sortBy byName (filter (\<lambda>t. kind t = TypeAlias) vals),
          g_enum = sortBy byName (filter (\<lambda>t. kind t = Enum) vals),
          g_class = sortBy byName []\<rparr>)"

text \<open>One of the three blocks of \<open>generateContractsFile\<close>.\<close>

definition contractSection ::
  "string \<Rightarrow> (extracted_type \<Rightarrow> string) \<Rightarrow> extracted_type list \<Rightarrow> string" where
  "contractSection title render grp =
     (if length grp > 0 then
        concat [
        ''  // ============================================================================\<newline>'',
        ''  // '', title, '' ('', showInt (int (length grp)), '' total)\<newline>'',
        ''  // ============================================================================\<newline>'',
        ''\<newline>''] @
        concat (map (\<lambda>ty. render ty @ ''\<newline>'') grp)
      else [])"

definition generateContractsFile ::
  "platform \<Rightarrow> rfc_generator_config \<Rightarrow> extraction_context \<Rightarrow> clock \<Rightarrow> string" where
  "generateContractsFile pf cfg ctx clk =
     (let m = metrics ctx; duration = dateNow clk - startTime m;
          content = concat [
        ''/**\<newline>'',
        '' * Third-Party Type Contracts\<newline>'',
        '' * \<newline>'',
        '' * This file contains extracted type definitions from third-party APIs\<newline>'',
        '' * in compliance with RFC-2025-TS-A01.\<newline>'',
        '' * \<newline>'',
        '' * DO NOT EDIT MANUALLY - This file is auto-generated\<newline>'',
        '' * \<newline>'',
        '' * API: '', apiId (rules ctx), ''\<newline>'',
        '' * Version: '', orElse (apiVersion cfg) ''unknown'', ''\<newline>'',
        '' * Generated: '', toISOString clk, ''\<newline>'',
        '' * \<newline>'',
        '' * EXTRACTION METRICS:\<newline>'',
        '' * - Files parsed: '', showInt (filesParsed m), ''\<newline>'',
        '' * - Types extracted: '', showInt (typesExtracted m), ''\<newline>'',
        '' * - Transforms applied: '', showInt (transformsApplied m), ''\<newline>'',
        '' * - Any type violations: '', showInt (anyTypeViolations m), ''\<newline>'',
        '' * - Extraction time: '', showInt duration, ''ms\<newline>'',
        '' * \<newline>'',
        '' * COMPLIANCE:\<newline>'',
        '' * '', checkMark, '' RFC-2025-TS-A01 compliant\<newline>'',
        '' * '', checkMark, '' Zero 'any' usage (branded unknowns used instead)\<newline>'',
        '' * '', checkMark, '' All types maintain strict TypeScript compatibility\<newline>'',
        '' * '', checkMark, '' Source locations preserved for traceability\<newline>'',
        '' * '', checkMark, '' Drift detection enabled\<newline>'',
        '' */\<newline>'',
        ''\<newline>'',
        ''/* eslint-disable @typescript-eslint/no-explicit-any */\<newline>'',
        ''/* eslint-disable @typescript-eslint/ban-types */\<newline>'',
        ''\<newline>'',
        ''declare module '@'', apiId (rules ctx), ''/contracts' {\<newline>'',
        ''  // ============================================================================\<newline>'',
        ''  // BRANDED UNKNOWN TYPES\<newline>'',
        ''  // ============================================================================\<newline>'',
        ''  \<newline>'',
        ''  /**\<newline>'',
        ''   * RFC-compliant branded unknown type with context\<newline>'',
        ''   */\<newline>'',
        ''  export type BrandedUnknown<TBrand extends string = string, TContext extends string = string> = \<newline>'',
        ''    unknown & { readonly __brand: TBrand; readonly __context: TContext };\<newline>'',
        ''\<newline>''];
          typesByKind = groupTypesByKindForContract pf (types ctx)
      in content @
         contractSection ''INTERFACES'' generateInterfaceForContract (g_interface typesByKind) @
         contractSection ''TYPE ALIASES'' generateTypeAliasForContract (g_type typesByKind) @
         contractSection ''ENUMS'' generateEnumForContract (g_enum typesByKind) @
         ''}\<newline>'')"

text \<open>
  \<^verbatim>\<open>/export\s+(interface|type|enum)\s+(\w+)/\<close> tried at the head of a text: the name it
  captures and the length of the match. The white space and the name are taken greedily; no
  shorter choice can match, as the classes around them are disjoint.
\<close>

definition matchExportAt :: "string \<Rightarrow> (string \<times> nat) option" where
  "matchExportAt s =
     (if startsWith s ''export'' then
        let s1 = drop 6 s; s2 = dropWhile isWhiteSpace s1 in
        if takeWhile isWhiteSpace s1 = [] then None
        else
          (case (if startsWith s2 ''interface'' then Some (drop 9 s2)
                 else if startsWith s2 ''type'' then Some (drop 4 s2)
                 else if startsWith s2 ''enum'' then Some (drop 4 s2)
                 else None) of
             None \<Rightarrow> None
           | Some s3 \<Rightarrow>
               let s4 = dropWhile isWhiteSpace s3; nm = takeWhile isWordChar s4 in
               if takeWhile isWhiteSpace s3 = [] \<or> nm = [] then None
               else Some (nm, length s - length (dropWhile isWordChar s4)))
      else None)"

text \<open>The \<^verbatim>\<open>exec\<close> loop: after a match the search goes on behind it.\<close>

fun extractNamesFrom :: "string \<Rightarrow> string list" where
  "extractNamesFrom [] = []"
| "extractNamesFrom (c # cs) =
     (case matchExportAt (c # cs) of
        Some (nm, n) \<Rightarrow> nm # extractNamesFrom (drop (n - 1) cs)
      | None \<Rightarrow> extractNamesFrom cs)"

text \<open>\<^verbatim>\<open>names.sort()\<close> orders strings by their code units.\<close>

definition extractTypeNames :: "string \<Rightarrow> string list" where
  "extractTypeNames content = sort (extractNamesFrom content)"

record drift_report =
  hasDrift :: bool
  summary :: string

definition detectDrift ::
  "platform \<Rightarrow> rfc_generator_config \<Rightarrow> extraction_context \<Rightarrow> clock \<Rightarrow> filesystem
     \<Rightarrow> drift_report" where
  "detectDrift pf cfg ctx clk fs =
     (case readFileSync fs (outputPath cfg) of
        None \<Rightarrow> \<lparr>hasDrift = False, summary = ''No existing file to compare''\<rparr>
      | Some existingContent \<Rightarrow>
          let newContent = generateContractsFile pf cfg ctx clk in
          if existingContent = newContent
          then \<lparr>hasDrift = False, summary = ''No drift detected''\<rparr>
          else
            let existingTypes = extractTypeNames existingContent;
                newTypes = extractTypeNames newContent;
                added = filter (\<lambda>t. t \<notin> set existingTypes) newTypes;
                removed = filter (\<lambda>t. t \<notin> set newTypes) existingTypes;
                summary0 =
                  (if length added > 0
                   then ''Added types: '' @ join '', '' added @ ''\<newline>'' else []) @
                  (if length removed > 0
                   then ''Removed types: '' @ join '', '' removed @ ''\<newline>'' else [])
            in \<lparr>hasDrift = (length added > 0 \<or> length removed > 0),
                summary = (if summary0 = [] then ''Types modified but names unchanged''
                           else summary0)\<rparr>)"

text \<open>The \<open>types\<close> of the extraction map: names by source file, files in order of first use.\<close>

fun groupBySource ::
  "(string \<times> extracted_type) list \<Rightarrow> (string \<times> string list) list
     \<Rightarrow> (string \<times> string list) list" where
  "groupBySource [] m = m"
| "groupBySource ((nm, ty) # rest) m =
     groupBySource rest
       (case map_of m (sourceFile ty) of
          None \<Rightarrow> m @ [(sourceFile ty, [nm])]
        | Some ns \<Rightarrow> mapSet m (sourceFile ty) (ns @ [nm]))"

definition generateExtractionMap ::
  "platform \<Rightarrow> rfc_generator_config \<Rightarrow> extraction_context \<Rightarrow> clock \<Rightarrow> filesystem
     \<Rightarrow> filesystem" where
  "generateExtractionMap pf cfg ctx clk fs =
     (let extractionMap =
            \<lparr>em_version = ''2.0.0'', em_generated = toISOString clk,
             em_api = apiId (rules ctx), em_apiVersion = apiVersion cfg,
             em_types = map (\<lambda>(f, ns). (f, sort ns)) (groupBySource (types ctx) [])\<rparr>
      in writeFileSync fs (extractionMapPath cfg) (jsonStringify pf extractionMap))"

text \<open>
  What a caller of \<open>generate\<close> sees: a normal return or the error thrown, and the file system
  as the call left it.
\<close>

datatype generate_outcome =
    Generated (resultFiles: filesystem)
  | GenerateThrown (thrownSummary: string) (filesAtThrow: filesystem)

text \<open>
  \<open>generate\<close> reads the clock up to three times: in the drift check, for the file it writes
  and for the extraction map.
\<close>

definition generate ::
  "platform \<Rightarrow> rfc_generator_config \<Rightarrow> extraction_context \<Rightarrow> clock \<Rightarrow> clock \<Rightarrow> clock
     \<Rightarrow> filesystem \<Rightarrow> generate_outcome" where
  "generate pf cfg ctx clk1 clk2 clk3 fs =
     (let outputDir' = dirname pf (outputPath cfg);
          fs1 = mkdirSync fs outputDir';
          drift = detectDrift pf cfg ctx clk1 fs1
      in if failOnDrift cfg = Some True \<and> existsSync fs1 (outputPath cfg) \<and> hasDrift drift
         then GenerateThrown (''Type drift detected:\<newline>'' @ summary drift) fs1
         else
           let content = generateContractsFile pf cfg ctx clk2;
               fs2 = writeFileSync fs1 (outputPath cfg) content
           in Generated (generateExtractionMap pf cfg ctx clk3 fs2))"

section \<open>Notions used in the properties\<close>

text \<open>
  The text has \<open>any\<close> at index \<open>i\<close> as a whole word: no word character right before it
  and none right behind it.
\<close>

definition wholeWordAt :: "string \<Rightarrow> nat \<Rightarrow> bool" where
  "wholeWordAt s i \<longleftrightarrow>
     take 3 (drop i s) = ''any'' \<and>
     (i = 0 \<or> \<not> isWordChar (s ! (i - 1))) \<and>
     (length s \<le> i + 3 \<or> \<not> isWordChar (s ! (i + 3)))"

text \<open>
  Every \<open>any\<close> in the text is a proper part of a longer word, a word being a run of the
  characters \<^verbatim>\<open>[A-Za-z0-9_]\<close>: it has a word character right before it or right behind it.
\<close>

definition onlyInsideWords :: "string \<Rightarrow> bool" where
  "onlyInsideWords s =
     list_all (\<lambda>i. take 3 (drop i s) = ''any'' \<longrightarrow>
                 (0 < i \<and> isWordChar (s ! (i - 1))) \<or>
                 (i + 3 < length s \<and> isWordChar (s ! (i + 3))))
       [0..<length s]"

text \<open>
  An identifier of TypeScript may hold, besides the word characters, the dollar sign and
  letters outside ASCII; below 256 these are the letters of Latin-1 and the middle dot.
\<close>

definition isIdentifierPart :: "char \<Rightarrow> bool" where
  "isIdentifierPart c \<longleftrightarrow>
     isWordChar c \<or> c = CHR ''$'' \<or> c \<in> set [CHR 0xAA, CHR 0xB5, CHR 0xB7, CHR 0xBA] \<or>
     (CHR 0xC0 \<le> c \<and> c \<noteq> CHR 0xD7 \<and> c \<noteq> CHR 0xF7)"

text \<open>
  Every \<open>any\<close> in the text is a proper part of a longer identifier: it has an identifier
  character right before it or right behind it.
\<close>

definition onlyInsideIdentifiers :: "string \<Rightarrow> bool" where
  "onlyInsideIdentifiers s =
     list_all (\<lambda>i. take 3 (drop i s) = ''any'' \<longrightarrow>
                 (0 < i \<and> isIdentifierPart (s ! (i - 1))) \<or>
                 (i + 3 < length s \<and> isIdentifierPart (s ! (i + 3))))
       [0..<length s]"

text \<open>The regular expression of the guard as a search with an arbitrary start state.\<close>

definition occAt :: "bool \<Rightarrow> string \<Rightarrow> nat \<Rightarrow> bool" where
  "occAt prevWord s j \<longleftrightarrow>
     take 3 (drop j s) = ''any'' \<and>
     (if j = 0 then \<not> prevWord else \<not> isWordChar (s ! (j - 1))) \<and>
     (length s \<le> j + 3 \<or> \<not> isWordChar (s ! (j + 3)))"

subsection \<open>Example inputs\<close>

definition exampleType :: "string \<Rightarrow> type_kind \<Rightarrow> bool \<Rightarrow> string \<Rightarrow> extracted_type" where
  "exampleType nm k ex d =
     \<lparr>name = nm, kind = k, definitionText = d, sourceFile = ''/src/api.ts'',
      location = \<lparr>line = 1, column = 0\<rparr>, isExported = ex, documentation = None,
      properties = None, typeParameters = None, extends = None\<rparr>"

definition exampleRules :: extraction_rules where
  "exampleRules = \<lparr>apiId = ''demo'', excludeTypes = Some [''Internal'']\<rparr>"

definition exampleContext :: "(string \<times> extracted_type) list \<Rightarrow> extraction_context" where
  "exampleContext ts = (newContext exampleRules 1000)\<lparr>types := ts\<rparr>"

definition goodType :: extracted_type where
  "goodType = exampleType ''Good'' Interface True ''interface Good { company: Anything; id: string }''"


text \<open>
  An interface with a property \<^verbatim>\<open>$any\<close> and a property whose name is \<open>any\<close>, a capital E with
  an acute accent (the code unit C9) and \<open>tat\<close>.
\<close>

definition dollarType :: extracted_type where
  "dollarType = exampleType ''Selectors'' Interface True
     (''interface Selectors { $any: string; any'' @ [CHR 0xC9] @ ''tat: number }'')"





text \<open>The extractor of test-extraction.ts and its input.\<close>

definition testValidateTypes :: "extraction_context \<Rightarrow> outcome" where
  "testValidateTypes ctx =
     Done (foldl (\<lambda>c (nm, ty).
             if kind ty = Interface \<and> (case properties ty of None \<Rightarrow> True | Some ps \<Rightarrow> length ps = 0)
             then addError c (sourceFile ty) (''Interface '' @ nm @ '' has no properties'') None None None
             else c)
           ctx (types ctx))"

definition testExtractor :: adapter where
  "testExtractor = \<lparr>applyTransformations = Done, validateTypes = testValidateTypes,
                     shouldExtractClass = base_shouldExtractClass\<rparr>"

definition testRules :: extraction_rules where
  "testRules = \<lparr>apiId = ''test-api'', excludeTypes = None\<rparr>"

definition propertyOf :: "string \<Rightarrow> string option \<Rightarrow> property_signature" where
  "propertyOf nm ty = \<lparr>sig_getName = nm, sig_typeNodeText = ty,
      sig_parentKindName = Some ''InterfaceDeclaration'', hasQuestionToken = False,
      isReadonly = False, sig_getJsDocs = []\<rparr>"

definition goodTypeDecl :: interface_declaration where
  "goodTypeDecl =
     \<lparr>getFullText = ''\<newline>export interface GoodType {\<newline>  id: string;\<newline>  name: string;\<newline>  data: unknown;\<newline>}'',
      getStartLineNumber = 2, getStartLinePos = 1, node_isExported = True, getJsDocs = [],
      getTypeParameters = [], iface_getName = ''GoodType'',
      getProperties = [propertyOf ''id'' (Some ''string''), propertyOf ''name'' (Some ''string''),
                       propertyOf ''data'' (Some ''unknown'')],
      iface_getExtends = []\<rparr>"

definition badTypeDecl :: interface_declaration where
  "badTypeDecl =
     \<lparr>getFullText = ''\<newline>\<newline>export interface BadType {\<newline>  id: any; // This should fail\<newline>  value: string;\<newline>}'',
      getStartLineNumber = 8, getStartLinePos = 79, node_isExported = True, getJsDocs = [],
      getTypeParameters = [], iface_getName = ''BadType'',
      getProperties = [propertyOf ''id'' (Some ''any''), propertyOf ''value'' (Some ''string'')],
      iface_getExtends = []\<rparr>"

definition statusTypeDecl :: type_alias_declaration where
  "statusTypeDecl =
     \<lparr>getFullText = ''\<newline>\<newline>export type StatusType = 'active' | 'inactive';'',
      getStartLineNumber = 13, getStartLinePos = 157, node_isExported = True, getJsDocs = [],
      getTypeParameters = [], alias_getName = ''StatusType''\<rparr>"

definition testFile :: source_file where
  "testFile = \<lparr>getFilePath = ''/test-files/test-types.ts'',
                getInterfaces = [goodTypeDecl, badTypeDecl],
                getTypeAliases = [statusTypeDecl], getEnums = [], getClasses = []\<rparr>"

text \<open>
  A parser over a fixed set of files: the project is the list of its source files in the
  order of their addition, a path that is in the project already adds nothing, and a path
  that holds no file throws.
\<close>

definition diskParser :: "(string \<times> source_file) list \<Rightarrow> source_file list parser" where
  "diskParser disk =
     \<lparr>newProject = [],
      addSourceFileAtPath = (\<lambda>p f.
        case map_of disk f of
          None \<Rightarrow> AddThrown (''File not found: '' @ f) p
        | Some sf \<Rightarrow> Added (if f \<in> set (map getFilePath p) then p else p @ [sf])),
      getSourceFiles = (\<lambda>p. p)\<rparr>"

definition testParser :: "source_file list parser" where
  "testParser = diskParser [(''/test-files/test-types.ts'', testFile)]"

text \<open>Reading a decimal numeral back.\<close>

definition readNat :: "string \<Rightarrow> nat" where
  "readNat s = foldl (\<lambda>acc c. 10 * acc + (of_char c - 48)) 0 s"

text \<open>The type alias \<open>StatusType\<close> as \<open>extract\<close> stores it for the file of test-extraction.ts.\<close>

definition extractedStatusType :: extracted_type where
  "extractedStatusType =
     the (map_of (types (resultContext (fst
            (extract_types testParser testExtractor [''/test-files/test-types.ts'']
               (newExtractor testParser testRules 0)))))
          ''StatusType'')"

definition examplePlatform :: platform where
  "examplePlatform =
     \<lparr>dirname = (\<lambda>p. ''/out''), resolve = (\<lambda>d f. d @ ''/'' @ f),
      localeCompare = (\<lambda>a b. if a < b then - 1 else if a = b then 0 else 1),
      jsonStringify = (\<lambda>m. ''{}'')\<rparr>"

definition exampleOutputConfig :: output_config where
  "exampleOutputConfig =
     \<lparr>outputDir = ''/out'', filePattern = ''{api}-types.ts'', generateIndex = False,
      splitTypes = False, header = None, sourceMaps = False\<rparr>"

definition clockA :: clock where
  "clockA = \<lparr>dateNow = 1005, toISOString = ''2025-01-01T00:00:01.005Z''\<rparr>"

definition clockB :: clock where
  "clockB = \<lparr>dateNow = 2005, toISOString = ''2025-01-01T00:00:02.005Z''\<rparr>"

text \<open>
  Notions for the count of extracted declarations: a name listed in \<open>excludeTypes\<close>, the
  declarations of a file that are not excluded, a file and a parser with the excluded
  declarations taken out, a file whose declaration texts hold no whole-word \<open>any\<close>, and an
  adapter hook that, whether it completes or throws, leaves the two metrics of the claim
  as they are and brings no whole-word \<open>any\<close> into the types.
\<close>

definition excludedName :: "extraction_rules \<Rightarrow> string \<Rightarrow> bool" where
  "excludedName r nm = (case excludeTypes r of None \<Rightarrow> False | Some xs \<Rightarrow> nm \<in> set xs)"

definition nonExcludedCount :: "extraction_rules \<Rightarrow> source_file \<Rightarrow> nat" where
  "nonExcludedCount r sf =
     length (filter (\<lambda>d. \<not> excludedName r (iface_getName d)) (getInterfaces sf)) +
     length (filter (\<lambda>d. \<not> excludedName r (alias_getName d)) (getTypeAliases sf)) +
     length (filter (\<lambda>d. \<not> excludedName r (enum_getName d)) (getEnums sf)) +
     length (filter (\<lambda>d. \<not> excludedName r (classNameOf d)) (getClasses sf))"

definition dropExcluded :: "extraction_rules \<Rightarrow> source_file \<Rightarrow> source_file" where
  "dropExcluded r sf =
     sf\<lparr>getInterfaces := filter (\<lambda>d. \<not> excludedName r (iface_getName d)) (getInterfaces sf),
        getTypeAliases := filter (\<lambda>d. \<not> excludedName r (alias_getName d)) (getTypeAliases sf),
        getEnums := filter (\<lambda>d. \<not> excludedName r (enum_getName d)) (getEnums sf),
        getClasses := filter (\<lambda>d. \<not> excludedName r (classNameOf d)) (getClasses sf)\<rparr>"

definition dropExcludedParser :: "extraction_rules \<Rightarrow> 'p parser \<Rightarrow> 'p parser" where
  "dropExcludedParser r ps =
     ps\<lparr>getSourceFiles := (\<lambda>p. map (dropExcluded r) (getSourceFiles ps p))\<rparr>"

definition noAnyInFile :: "source_file \<Rightarrow> bool" where
  "noAnyInFile sf \<longleftrightarrow>
     list_all (\<lambda>d. findAnyInDefinition (getFullText d) = []) (getInterfaces sf) \<and>
     list_all (\<lambda>d. findAnyInDefinition (getFullText d) = []) (getTypeAliases sf) \<and>
     list_all (\<lambda>d. findAnyInDefinition (getFullText d) = []) (getEnums sf) \<and>
     list_all (\<lambda>d. findAnyInDefinition (getFullText d) = []) (getClasses sf)"

definition cleanTypes :: "extraction_context \<Rightarrow> bool" where
  "cleanTypes ctx \<longleftrightarrow> (\<forall>(n, t) \<in> set (types ctx). findAnyInDefinition (definitionText t) = [])"

definition contextOf :: "outcome \<Rightarrow> extraction_context" where
  "contextOf r = (case r of Done c \<Rightarrow> c | Thrown msg c \<Rightarrow> c)"

definition keepsCounters :: "(extraction_context \<Rightarrow> outcome) \<Rightarrow> bool" where
  "keepsCounters hook \<longleftrightarrow>
     (\<forall>c. typesExtracted (metrics (contextOf (hook c))) = typesExtracted (metrics c) \<and>
          anyTypeViolations (metrics (contextOf (hook c))) = anyTypeViolations (metrics c) \<and>
          (cleanTypes c \<longrightarrow> cleanTypes (contextOf (hook c))))"

text \<open>The declarations of a file that the extractor stores.\<close>

definition extractedCount :: "adapter \<Rightarrow> extraction_rules \<Rightarrow> source_file \<Rightarrow> nat" where
  "extractedCount ad r sf =
     length (filter (\<lambda>d. \<not> excludedName r (iface_getName d)) (getInterfaces sf)) +
     length (filter (\<lambda>d. \<not> excludedName r (alias_getName d)) (getTypeAliases sf)) +
     length (filter (\<lambda>d. \<not> excludedName r (enum_getName d)) (getEnums sf)) +
     length (filter (\<lambda>d. \<not> (\<not> shouldExtractClass ad d \<or> excludedName r (classNameOf d))) (getClasses sf))"

definition internalDecl :: interface_declaration where
  "internalDecl =
     \<lparr>getFullText = ''\<newline>\<newline>interface Internal {\<newline>  secret: string;\<newline>}'',
      getStartLineNumber = 8, getStartLinePos = 79, node_isExported = False, getJsDocs = [],
      getTypeParameters = [], iface_getName = ''Internal'',
      getProperties = [propertyOf ''secret'' (Some ''string'')],
      iface_getExtends = []\<rparr>"

definition cleanFile :: source_file where
  "cleanFile = \<lparr>getFilePath = ''/src/clean.ts'',
                 getInterfaces = [goodTypeDecl, internalDecl],
                 getTypeAliases = [statusTypeDecl], getEnums = [], getClasses = []\<rparr>"

definition cleanParser :: "source_file list parser" where
  "cleanParser = diskParser [(''/src/clean.ts'', cleanFile)]"

text \<open>
  A file whose one declaration is fully annotated and has no \<open>any\<close> among its types, the
  word standing in its comment only: the line \<^verbatim>\<open>/** Holds any number of items. */\<close> and under
  it the declaration \<^verbatim>\<open>export interface Basket { items: string[]; }\<close> on three lines.
\<close>

definition basketDecl :: interface_declaration where
  "basketDecl =
     \<lparr>getFullText = ''/** Holds any number of items. */\<newline>export interface Basket {\<newline>  items: string[];\<newline>}'',
      getStartLineNumber = 2, getStartLinePos = 34, node_isExported = True,
      getJsDocs = [''Holds any number of items.''],
      getTypeParameters = [], iface_getName = ''Basket'',
      getProperties = [propertyOf ''items'' (Some ''string[]'')],
      iface_getExtends = []\<rparr>"

definition basketFile :: source_file where
  "basketFile = \<lparr>getFilePath = ''/src/basket.ts'', getInterfaces = [basketDecl],
                  getTypeAliases = [], getEnums = [], getClasses = []\<rparr>"

definition basketParser :: "source_file list parser" where
  "basketParser = diskParser [(''/src/basket.ts'', basketFile)]"

text \<open>
  The names the drift check reports: in the new text and not in the old one, and in the
  old text and not in the new one.
\<close>

definition addedNames :: "string \<Rightarrow> string \<Rightarrow> string list" where
  "addedNames old new = filter (\<lambda>t. t \<notin> set (extractTypeNames old)) (extractTypeNames new)"

definition removedNames :: "string \<Rightarrow> string \<Rightarrow> string list" where
  "removedNames old new = filter (\<lambda>t. t \<notin> set (extractTypeNames new)) (extractTypeNames old)"

text \<open>
  A committed artifact and a regeneration: the text generated for one interface, the same
  text with one more exported declaration in front, and the same text with a comment in
  front.
\<close>

definition exampleRfcConfig :: rfc_generator_config where
  "exampleRfcConfig =
     \<lparr>outputPath = ''/out/third-party-contracts.d.ts'', extractionMapPath = ''/out/type-extraction-map.json'',
      failOnDrift = Some True, apiVersion = Some ''1.0.0''\<rparr>"

definition driftContext :: extraction_context where
  "driftContext = exampleContext [(''Good'', goodType)]"

definition exampleNew :: string where
  "exampleNew = generateContractsFile examplePlatform exampleRfcConfig driftContext clockA"

definition exampleOld :: string where
  "exampleOld = ''export type Q = 1;\<newline>'' @ exampleNew"


definition fileSystemWith :: "string \<Rightarrow> filesystem" where
  "fileSystemWith content =
     \<lparr>files = [''/out/third-party-contracts.d.ts'' \<mapsto> content], dirs = {''/out''}\<rparr>"

section \<open>The forbidden-type scan\<close>

lemma case_drop_nth:
  "(case drop k s of [] \<Rightarrow> True | d # _ \<Rightarrow> P d) = (length s \<le> k \<or> P (s ! k))"
proof (cases "k < length s")
  case True
  then have "drop k s = s ! k # drop (Suc k) s" by (simp add: Cons_nth_drop_Suc)
  with True show ?thesis by simp
next
  case False
  then show ?thesis by simp
qed

lemma occAt_0: "occAt pw s 0 = anyMatchAt pw s"
  by (auto simp: occAt_def anyMatchAt_def case_drop_nth)

lemma occAt_Suc: "occAt pw (c # cs) (Suc j) = occAt (isWordChar c) cs j"
  by (cases j) (simp_all add: occAt_def)

lemma upt_0_Suc: "[0..<Suc n] = 0 # map Suc [0..<n]"
  by (simp add: upt_conv_Cons map_Suc_upt del: upt_Suc)

lemma filter_occAt_Cons:
  "n = length cs \<Longrightarrow> filter (occAt pw (c # cs)) [0..<Suc n] =
     (if anyMatchAt pw (c # cs) then [0] else []) @
     map Suc (filter (occAt (isWordChar c) cs) [0..<n])"
  unfolding upt_0_Suc
  by (simp add: filter_map o_def occAt_Suc occAt_0)

lemma isWordChar_any:
  "isWordChar CHR ''a''" "isWordChar CHR ''n''" "isWordChar CHR ''y''"
  by (simp_all add: isWordChar_def)

lemma anyMatchAt_shape:
  assumes "anyMatchAt pw (c # cs)"
  shows "\<exists>rest. c = CHR ''a'' \<and> cs = CHR ''n'' # CHR ''y'' # rest"
proof -
  from assms have "take 3 (c # cs) = ''any''" by (simp add: anyMatchAt_def)
  then show ?thesis
    by (cases cs; cases "tl cs") auto
qed

text \<open>The search finds exactly the positions where the expression matches, in order.\<close>

lemma anyIndices_filter:
  "anyIndices pw k s = map ((+) k) (filter (occAt pw s) [0..<length s])"
proof (induction pw k s rule: anyIndices.induct)
  case (1 pw i)
  show ?case by simp
next
  case (2 pw i c cs)
  show ?case
  proof (cases "anyMatchAt pw (c # cs)")
    case False
    with 2 show ?thesis
      by (simp add: filter_occAt_Cons o_def del: upt_Suc)
  next
    case True
    then obtain rest where c: "c = CHR ''a''" and cs: "cs = CHR ''n'' # CHR ''y'' # rest"
      using anyMatchAt_shape by blast
    have nm1: "\<not> anyMatchAt True (CHR ''n'' # CHR ''y'' # rest)"
      by (simp add: anyMatchAt_def)
    have nm2: "\<not> anyMatchAt True (CHR ''y'' # rest)"
      by (simp add: anyMatchAt_def)
    have "filter (occAt pw (c # cs)) [0..<Suc (length cs)] =
            0 # map (\<lambda>j. j + 3) (filter (occAt True rest) [0..<length rest])"
      using True nm1 nm2
      by (simp add: filter_occAt_Cons c cs isWordChar_any o_def del: upt_Suc)
    moreover have "anyIndices True (i + 3) (drop 2 cs) =
            map ((+) (i + 3)) (filter (occAt True rest) [0..<length rest])"
      using 2(1)[OF True] by (simp add: cs)
    ultimately show ?thesis
      using True by (simp add: o_def add.commute add.left_commute del: upt_Suc)
  qed
qed

lemma occAt_wholeWordAt: "occAt False s i = wholeWordAt s i"
  by (auto simp: occAt_def wholeWordAt_def)

lemma plus_0_fun: "(+) (0::nat) = (\<lambda>x. x)"
  by auto

lemma anyIndices_wholeWord:
  "anyIndices False 0 s = filter (wholeWordAt s) [0..<length s]"
  by (simp add: anyIndices_filter occAt_wholeWordAt[abs_def] plus_0_fun del: upt_Suc)

lemma onlyInsideWords_no_wholeWord:
  assumes "onlyInsideWords s"
  shows "filter (wholeWordAt s) [0..<length s] = []"
proof -
  have "\<not> wholeWordAt s i" if "i < length s" for i
    using assms that by (auto simp: onlyInsideWords_def list_all_iff wholeWordAt_def)
  then show ?thesis by (simp add: filter_empty_conv)
qed

lemma findAny_onlyInsideWords:
  "onlyInsideWords s \<Longrightarrow> findAnyInDefinition s = []"
  by (simp add: findAnyInDefinition_def anyIndices_wholeWord onlyInsideWords_no_wholeWord
      del: upt_Suc)

section \<open>The guard\<close>


lemma detectAnyLoop_clean:
  "\<forall>(n, u) \<in> set ts. findAnyInDefinition (definitionText u) = [] \<Longrightarrow>
     detectAnyLoop ts ctx = Done ctx"
  by (induction ts) (auto simp: Let_def)


text \<open>
  C9 (as amended). The scan matches \<open>any\<close> as a whole word, a word being a run of the ASCII
  characters \<^verbatim>\<open>[A-Za-z0-9_]\<close>: when in every definition of the context each \<open>any\<close> is a proper
  part of a longer such run (as in \<open>company\<close> or \<open>Anything\<close>), the scan reports no
  occurrence for any type, and the guard completes without a violation, leaving the
  context as it was.
\<close>

theorem scan_ignores_any_inside_words:
  assumes "\<forall>(n, t) \<in> set (types ctx). onlyInsideWords (definitionText t)"
  shows "(\<forall>(n, t) \<in> set (types ctx). findAnyInDefinition (definitionText t) = []) \<and>
         detectAnyTypes ctx = Done ctx"
proof -
  have clean: "\<forall>(n, t) \<in> set (types ctx). findAnyInDefinition (definitionText t) = []"
    using assms by (auto simp: findAny_onlyInsideWords)
  then show ?thesis
    by (simp add: detectAnyTypes_def detectAnyLoop_clean)
qed

theorem scan_ignores_any_inside_words_witness:
  "onlyInsideWords (definitionText goodType) \<and>
   findAnyInDefinition (definitionText goodType) = [] \<and>
   detectAnyTypes (exampleContext [(''Good'', goodType)]) = Done (exampleContext [(''Good'', goodType)])"
proof -
  have inside: "onlyInsideWords ''interface Good { company: Anything; id: string }''"
    by code_simp
  then have inside': "onlyInsideWords (definitionText goodType)"
    by (simp add: goodType_def exampleType_def)
  then have h: "\<forall>(n, t) \<in> set (types (exampleContext [(''Good'', goodType)])).
             onlyInsideWords (definitionText t)"
    by (simp add: exampleContext_def)
  from scan_ignores_any_inside_words [OF h] inside' show ?thesis
    by (simp add: exampleContext_def)
qed

text \<open>
  C9 as stated fails: in an identifier the token may be set off by a dollar sign or by a
  letter outside ASCII, which are no word characters. Both \<open>any\<close> of the example are
  proper parts of longer identifiers, and the scan reports both and the guard throws.
\<close>

theorem scan_reports_any_inside_identifier_counterexample:
  "onlyInsideIdentifiers (definitionText dollarType) \<and>
   map occ_context (findAnyInDefinition (definitionText dollarType)) =
     [''erface Selectors { $any: string; any'' @ [CHR 0xC9] @ ''tat'',
      ''ors { $any: string; any'' @ [CHR 0xC9] @ ''tat: number }''] \<and>
   \<not> is_Done (detectAnyTypes (exampleContext [(''Selectors'', dollarType)])) \<and>
   anyTypeViolations (metrics (thrownContext
     (detectAnyTypes (exampleContext [(''Selectors'', dollarType)])))) = 1"
  by code_simp

lemma substring_length: "length (substring s a b) \<le> max a b - min a b"
  by (simp add: substring_def)






section \<open>The extractor\<close>

text \<open>
  C10. \<open>extract\<close> never throws to its caller, on a new extractor and on one used before: it
  returns the context of the \<^verbatim>\<open>try\<close> block when that completes, and otherwise the context as
  it stood at the throw (metrics, types and errors gathered so far) with exactly one more
  error entry, whose message is \<open>Extraction failed:\<close> followed by the message thrown. The
  context returned is the one the extractor keeps.
\<close>

theorem extract_never_throws:
  "is_Done (fst (extract_types ps ad paths ex)) \<and>
   (case extractTry ps ad paths ((extractor_context ex)\<lparr>sourceFiles := paths\<rparr>)
           (extractor_project ex) of
      (Done c, p) \<Rightarrow>
        extract_types ps ad paths ex =
          (Done c, \<lparr>extractor_context = c, extractor_project = p\<rparr>)
    | (Thrown msg c, p) \<Rightarrow>
        extract_types ps ad paths ex =
          (Done (c\<lparr>errors := errors c @
                   [\<lparr>err_file = [], message = ''Extraction failed: '' @ msg,
                     err_type = None, err_line = None, err_column = None\<rparr>]\<rparr>),
           \<lparr>extractor_context =
              c\<lparr>errors := errors c @
                   [\<lparr>err_file = [], message = ''Extraction failed: '' @ msg,
                     err_type = None, err_line = None, err_column = None\<rparr>]\<rparr>,
            extractor_project = p\<rparr>))"
  by (simp add: extract_types_def addError_def Let_def split: prod.splits outcome.splits)

text \<open>
  C1 (the code does otherwise). On the input of test-extraction.ts, whose \<open>BadType\<close> has
  a property of type \<open>any\<close>, the guard throws, but \<open>extract\<close> catches the error and returns
  normally: the caller gets the context with the violation and the caught message as
  error entries.
\<close>

theorem extract_returns_despite_any:
  "is_Done (fst (extract_types testParser testExtractor [''/test-files/test-types.ts'']
                  (newExtractor testParser testRules 0))) \<and>
   map message (errors (resultContext (fst
       (extract_types testParser testExtractor [''/test-files/test-types.ts'']
          (newExtractor testParser testRules 0))))) =
     [''Type 'BadType' contains 'any' type: ace BadType {\<newline>  id: any; // This should . Use a specific type or branded unknown instead.'',
      ''Extraction failed: Extraction failed: 1 'any' type violations found. See errors for details.''] \<and>
   anyTypeViolations (metrics (resultContext (fst
       (extract_types testParser testExtractor [''/test-files/test-types.ts'']
          (newExtractor testParser testRules 0))))) = 1"
  by code_simp

text \<open>
  C5 (the code does otherwise). A property without a type annotation gets the placeholder
  with the category \<open>property\<close> and, as origin, the property's name alone, without the
  owning declaration; the first extractor gives it the bare \<open>unknown\<close>.
\<close>

theorem missing_annotation_placeholder:
  "getPropertyTypeString (propertyOf ''bar'' None) =
     ''unknown & { readonly __brand: 'property'; readonly __context: 'bar' }'' \<and>
   getPropertyType None = ''unknown''"
  by code_simp


section \<open>The generators\<close>

text \<open>
  C7 (the code does otherwise). The text that \<open>extract\<close> stores for a declaration is the
  parser's full text, which begins with the line breaks and comments in front of the
  declaration. For the exported alias \<open>StatusType\<close> of test-extraction.ts the stored text
  carries the marker behind two line breaks, so the test of the general-purpose generator,
  which looks at the very start of the text, fails and the marker is put in front a second
  time. The contracts generator trims the text and puts the marker in front without a
  test, so it doubles the marker as well.
\<close>

theorem export_marker_duplicated:
  "kind extractedStatusType = TypeAlias \<and> isExported extractedStatusType \<and>
   definitionText extractedStatusType = ''\<newline>\<newline>export type StatusType = 'active' | 'inactive';'' \<and>
   generateType extractedStatusType =
     ''export \<newline>\<newline>export type StatusType = 'active' | 'inactive';'' \<and>
   generateTypeAliasForContract extractedStatusType =
     ''  export export type StatusType = 'active' | 'inactive';\<newline>''"
  by code_simp

subsection \<open>Numbers in the generated text\<close>

lemma digitChar_val: "d < 10 \<Longrightarrow> of_char (digitChar d) = 48 + d"
  by (simp add: digitChar_def)

lemma readNat_snoc: "readNat (s @ [c]) = 10 * readNat s + (of_char c - 48)"
  by (simp add: readNat_def)

lemma readNat_showNat: "readNat (showNat n) = n"
proof (induction n rule: showNat.induct)
  case (1 n)
  show ?case
  proof (cases "n < 10")
    case True
    then show ?thesis
      by (subst showNat.simps) (simp add: readNat_def digitChar_val)
  next
    case False
    then have "readNat (showNat n) = 10 * readNat (showNat (n div 10)) + n mod 10"
      by (subst showNat.simps) (simp add: readNat_snoc digitChar_val)
    with 1 False show ?thesis by simp
  qed
qed

lemma showNat_inj: "showNat a = showNat b \<Longrightarrow> a = b"
  by (metis readNat_showNat)

lemma showNat_digits: "c \<in> set (showNat n) \<Longrightarrow> CHR ''0'' \<le> c \<and> c \<le> CHR ''9''"
proof (induction n arbitrary: c rule: showNat.induct)
  case (1 n)
  have dig: "CHR ''0'' \<le> digitChar d \<and> digitChar d \<le> CHR ''9''" if "d < 10" for d
    using that by (simp add: digitChar_def less_eq_char_def)
  show ?case
  proof (cases "n < 10")
    case True
    then have "showNat n = [digitChar n]" by (subst showNat.simps) simp
    with 1(2) dig [OF True] show ?thesis by simp
  next
    case False
    then have "showNat n = showNat (n div 10) @ [digitChar (n mod 10)]"
      by (subst showNat.simps) simp
    with 1(2) have "c \<in> set (showNat (n div 10)) \<or> c = digitChar (n mod 10)" by auto
    then show ?thesis
      using 1(1) [OF False] dig [of "n mod 10"] by auto
  qed
qed

lemma showNat_nonempty: "showNat n \<noteq> []"
  by (subst showNat.simps) simp

lemma showInt_inj: "showInt a = showInt b \<Longrightarrow> a = b"
proof -
  assume eq: "showInt a = showInt b"
  have nodash: "hd (showNat n) \<noteq> CHR ''-''" for n
    using showNat_digits [of "hd (showNat n)" n] showNat_nonempty [of n]
    by (auto simp: less_eq_char_def)
  have ne: "CHR ''-'' # showNat m \<noteq> showNat n" for m n
    using nodash [of n] by (metis list.sel(1))
  show ?thesis
  proof (cases "a < 0"; cases "b < 0")
    assume "a < 0" "b < 0"
    with eq have "nat (- a) = nat (- b)" by (auto simp: showInt_def dest: showNat_inj)
    with \<open>a < 0\<close> \<open>b < 0\<close> show ?thesis by simp
  next
    assume "a < 0" "\<not> b < 0"
    with eq ne show ?thesis by (auto simp: showInt_def)
  next
    assume "\<not> a < 0" "b < 0"
    with eq ne [of "nat (- b)" "nat a"] show ?thesis by (auto simp: showInt_def)
  next
    assume "\<not> a < 0" "\<not> b < 0"
    with eq have "nat a = nat b" by (auto simp: showInt_def dest: showNat_inj)
    with \<open>\<not> a < 0\<close> \<open>\<not> b < 0\<close> show ?thesis by simp
  qed
qed

lemma showInt_no_m: "CHR ''m'' \<notin> set (showInt a)"
  using showNat_digits [of "CHR ''m''"]
  by (auto simp: showInt_def less_eq_char_def)

lemma append_barrier_eq:
  "x \<notin> set u \<Longrightarrow> x \<notin> set v \<Longrightarrow> (u @ x # xs = v @ x # ys) = (u = v \<and> xs = ys)"
proof (induction u arbitrary: v)
  case Nil
  then show ?case by (cases v) auto
next
  case (Cons a u)
  then show ?case by (cases v) auto
qed

lemma showInt_m_eq:
  "(showInt a @ CHR ''m'' # xs = showInt b @ CHR ''m'' # ys) = (a = b \<and> xs = ys)"
  using append_barrier_eq [OF showInt_no_m showInt_no_m] showInt_inj by blast

subsection \<open>The unified artifact and the clock\<close>

lemma generateMetadata_eq_iff:
  "generateMetadata ctx c1 = generateMetadata ctx c2 \<longleftrightarrow>
     dateNow c1 = dateNow c2 \<and> toISOString c1 = toISOString c2"
  by (auto simp: generateMetadata_def Let_def showInt_m_eq)

lemma unifiedContent_eq_iff:
  "unifiedContent pf cfg ctx c1 = unifiedContent pf cfg ctx c2 \<longleftrightarrow>
     dateNow c1 = dateNow c2 \<and> toISOString c1 = toISOString c2"
  by (simp add: unifiedContent_def Let_def generateMetadata_eq_iff)

text \<open>
  C6 (as amended). The text of the unified artifact is a function of the configuration, the
  context and the two readings of the clock that the metadata block prints. While the
  start time of the context, the two readings of \<^verbatim>\<open>Date.now()\<close> and the two elapsed times are
  safe integers, two generations from the same context give the same text exactly when
  they read the same \<^verbatim>\<open>Date.now()\<close> and the same ISO timestamp.
\<close>

theorem unified_text_identical_iff_same_clock:
  assumes "safeInteger (startTime (metrics ctx))"
    and "safeInteger (dateNow c1)" "safeInteger (dateNow c2)"
    and "safeInteger (dateNow c1 - startTime (metrics ctx))"
    and "safeInteger (dateNow c2 - startTime (metrics ctx))"
  shows "unifiedContent pf cfg ctx c1 = unifiedContent pf cfg ctx c2 \<longleftrightarrow>
           dateNow c1 = dateNow c2 \<and> toISOString c1 = toISOString c2"
  by (rule unifiedContent_eq_iff)

theorem unified_text_identical_iff_same_clock_witness:
  "safeInteger (startTime (metrics (exampleContext [(''Good'', goodType)]))) \<and>
   safeInteger (dateNow clockA) \<and> safeInteger (dateNow clockB) \<and>
   safeInteger (dateNow clockA - startTime (metrics (exampleContext [(''Good'', goodType)]))) \<and>
   safeInteger (dateNow clockB - startTime (metrics (exampleContext [(''Good'', goodType)]))) \<and>
   unifiedContent examplePlatform exampleOutputConfig (exampleContext [(''Good'', goodType)]) clockA =
     unifiedContent examplePlatform exampleOutputConfig (exampleContext [(''Good'', goodType)])
       (clockA\<lparr>dateNow := 1005\<rparr>) \<and>
   unifiedContent examplePlatform exampleOutputConfig (exampleContext [(''Good'', goodType)]) clockA \<noteq>
     unifiedContent examplePlatform exampleOutputConfig (exampleContext [(''Good'', goodType)])
       (clockA\<lparr>dateNow := 1006\<rparr>)"
proof -
  let ?ctx = "exampleContext [(''Good'', goodType)]"
  have s: "startTime (metrics ?ctx) = 1000" "dateNow clockA = 1005" "dateNow clockB = 2005"
    by (simp_all add: exampleContext_def newContext_def clockA_def clockB_def)
  have r: "safeInteger 1000" "safeInteger 1005" "safeInteger 2005" "safeInteger 5"
    "safeInteger 1005" "safeInteger 1006" "safeInteger 6"
    by (simp_all add: safeInteger_def)
  have h: "safeInteger (startTime (metrics ?ctx))" "safeInteger (dateNow clockA)"
    "safeInteger (dateNow (clockA\<lparr>dateNow := 1005\<rparr>))"
    "safeInteger (dateNow (clockA\<lparr>dateNow := 1006\<rparr>))"
    "safeInteger (dateNow clockA - startTime (metrics ?ctx))"
    "safeInteger (dateNow (clockA\<lparr>dateNow := 1005\<rparr>) - startTime (metrics ?ctx))"
    "safeInteger (dateNow (clockA\<lparr>dateNow := 1006\<rparr>) - startTime (metrics ?ctx))"
    using r by (simp_all add: s)
  note same = unified_text_identical_iff_same_clock
    [OF h(1) h(2) h(3) h(5) h(6), of examplePlatform exampleOutputConfig]
  note other = unified_text_identical_iff_same_clock
    [OF h(1) h(2) h(4) h(5) h(7), of examplePlatform exampleOutputConfig]
  from same other r show ?thesis
    by (simp add: s)
qed

text \<open>
  C6 as stated fails: one context generated at two different times gives two different
  texts.
\<close>

theorem unified_text_differs_counterexample:
  "unifiedContent examplePlatform exampleOutputConfig (exampleContext [(''Good'', goodType)]) clockA \<noteq>
   unifiedContent examplePlatform exampleOutputConfig (exampleContext [(''Good'', goodType)]) clockB"
  by (simp add: unifiedContent_eq_iff clockA_def clockB_def)


section \<open>Counting the extracted declarations\<close>

lemma isExcluded_excludedName: "isExcluded ctx nm = excludedName (rules ctx) nm"
  by (simp add: isExcluded_def excludedName_def)

lemma set_mapSet: "set (mapSet m k v) \<subseteq> insert (k, v) (set m)"
  by (induction m) (auto split: if_splits)

lemma storeType_facts:
  "rules (storeType c t) = rules c"
  "typesExtracted (metrics (storeType c t)) = typesExtracted (metrics c) + 1"
  "anyTypeViolations (metrics (storeType c t)) = anyTypeViolations (metrics c)"
  "errors (storeType c t) = errors c"
  by (simp_all add: storeType_def)

lemma storeType_clean:
  "cleanTypes c \<Longrightarrow> findAnyInDefinition (definitionText t) = [] \<Longrightarrow> cleanTypes (storeType c t)"
  using set_mapSet [of "types c" "name t" t]
  by (auto simp: cleanTypes_def storeType_def)

text \<open>One loop of parseFile: a step skips a declaration or stores its record.\<close>

lemma extract_loop:
  assumes step: "\<And>c d. f c d = (if skip (rules c) d then c else storeType c (mk d))"
  shows "rules (foldl f ctx ds) = rules ctx"
    and "typesExtracted (metrics (foldl f ctx ds)) =
           typesExtracted (metrics ctx) + int (length (filter (\<lambda>d. \<not> skip (rules ctx) d) ds))"
    and "anyTypeViolations (metrics (foldl f ctx ds)) = anyTypeViolations (metrics ctx)"
    and "cleanTypes ctx \<Longrightarrow> \<forall>d \<in> set ds. findAnyInDefinition (definitionText (mk d)) = [] \<Longrightarrow>
           cleanTypes (foldl f ctx ds)"
    and "\<forall>d. \<not> keep d \<longrightarrow> skip (rules ctx) d \<Longrightarrow> foldl f ctx (filter keep ds) = foldl f ctx ds"
proof -
  show r: "rules (foldl f ctx ds) = rules ctx" for ctx
    by (induction ds arbitrary: ctx) (simp_all add: step storeType_facts)
  show "typesExtracted (metrics (foldl f ctx ds)) =
           typesExtracted (metrics ctx) + int (length (filter (\<lambda>d. \<not> skip (rules ctx) d) ds))"
    by (induction ds arbitrary: ctx) (simp_all add: step storeType_facts)
  show "anyTypeViolations (metrics (foldl f ctx ds)) = anyTypeViolations (metrics ctx)"
    by (induction ds arbitrary: ctx) (simp_all add: step storeType_facts)
  show "cleanTypes ctx \<Longrightarrow> \<forall>d \<in> set ds. findAnyInDefinition (definitionText (mk d)) = [] \<Longrightarrow>
           cleanTypes (foldl f ctx ds)"
    by (induction ds arbitrary: ctx) (simp_all add: step storeType_clean)
  have "rules c = r \<Longrightarrow> \<forall>d. \<not> keep d \<longrightarrow> skip r d \<Longrightarrow>
          foldl f c (filter keep ds) = foldl f c ds" for c r
    by (induction ds arbitrary: c) (simp_all add: step storeType_facts)
  then show "\<forall>d. \<not> keep d \<longrightarrow> skip (rules ctx) d \<Longrightarrow> foldl f ctx (filter keep ds) = foldl f ctx ds"
    by simp
qed

lemma extractInterface_step:
  "extractInterface sf c d =
     (if excludedName (rules c) (iface_getName d) then c
      else storeType c
        \<lparr>name = iface_getName d, kind = Interface, definitionText = getFullText d,
         sourceFile = getFilePath sf,
         location = \<lparr>line = getStartLineNumber d, column = getStartLinePos d\<rparr>,
         isExported = node_isExported d, documentation = getJSDoc (getJsDocs d),
         properties = Some (extractProperties d),
         typeParameters = Some (getTypeParameters d),
         extends = Some (iface_getExtends d)\<rparr>)"
  by (simp add: extractInterface_def Let_def isExcluded_excludedName)

lemma extractTypeAlias_step:
  "extractTypeAlias sf c d =
     (if excludedName (rules c) (alias_getName d) then c
      else storeType c
        \<lparr>name = alias_getName d, kind = TypeAlias, definitionText = getFullText d,
         sourceFile = getFilePath sf,
         location = \<lparr>line = getStartLineNumber d, column = getStartLinePos d\<rparr>,
         isExported = node_isExported d, documentation = getJSDoc (getJsDocs d),
         properties = None,
         typeParameters = Some (getTypeParameters d),
         extends = None\<rparr>)"
  by (simp add: extractTypeAlias_def Let_def isExcluded_excludedName)

lemma extractEnum_step:
  "extractEnum sf c d =
     (if excludedName (rules c) (enum_getName d) then c
      else storeType c
        \<lparr>name = enum_getName d, kind = Enum, definitionText = getFullText d,
         sourceFile = getFilePath sf,
         location = \<lparr>line = getStartLineNumber d, column = getStartLinePos d\<rparr>,
         isExported = node_isExported d, documentation = getJSDoc (getJsDocs d),
         properties = None, typeParameters = None, extends = None\<rparr>)"
  by (simp add: extractEnum_def Let_def isExcluded_excludedName)

lemma extractClass_step:
  "(if shouldExtractClass ad d then extractClass sf c d else c) =
     (if \<not> shouldExtractClass ad d \<or> excludedName (rules c) (classNameOf d) then c
      else storeType c
        \<lparr>name = classNameOf d, kind = Class, definitionText = getFullText d,
         sourceFile = getFilePath sf,
         location = \<lparr>line = getStartLineNumber d, column = getStartLinePos d\<rparr>,
         isExported = node_isExported d, documentation = getJSDoc (getJsDocs d),
         properties = None,
         typeParameters = Some (getTypeParameters d),
         extends = (case class_getExtends d of None \<Rightarrow> None | Some e \<Rightarrow> Some [e])\<rparr>)"
  by (simp add: extractClass_def Let_def isExcluded_excludedName)

lemmas iface_loop = extract_loop [where f = "extractInterface sf" for sf, OF extractInterface_step]
lemmas alias_loop = extract_loop [where f = "extractTypeAlias sf" for sf, OF extractTypeAlias_step]
lemmas enum_loop = extract_loop [where f = "extractEnum sf" for sf, OF extractEnum_step]
lemmas class_loop =
  extract_loop [where f = "\<lambda>c d. if shouldExtractClass ad d then extractClass sf c d else c" for ad sf,
    OF extractClass_step]

lemma parseFile_facts:
  "rules (parseFile ad ctx sf) = rules ctx"
  "typesExtracted (metrics (parseFile ad ctx sf)) =
     typesExtracted (metrics ctx) + int (extractedCount ad (rules ctx) sf)"
  "anyTypeViolations (metrics (parseFile ad ctx sf)) = anyTypeViolations (metrics ctx)"
  by (simp_all add: parseFile_def Let_def extractedCount_def
        iface_loop alias_loop enum_loop class_loop)

lemma parseFile_clean:
  assumes "cleanTypes ctx" "noAnyInFile sf"
  shows "cleanTypes (parseFile ad ctx sf)"
proof -
  have c0: "cleanTypes (ctx\<lparr>metrics := (metrics ctx)\<lparr>filesParsed := filesParsed (metrics ctx) + 1\<rparr>\<rparr>)"
    using assms(1) by (simp add: cleanTypes_def)
  show ?thesis
    using assms(2) unfolding parseFile_def Let_def noAnyInFile_def list_all_iff
    by (intro class_loop(4) enum_loop(4) alias_loop(4) iface_loop(4) c0) simp_all
qed

lemma extract_path_only:
  assumes "getFilePath sf' = getFilePath sf"
  shows "extractInterface sf' = extractInterface sf"
    and "extractTypeAlias sf' = extractTypeAlias sf"
    and "extractEnum sf' = extractEnum sf"
    and "extractClass sf' = extractClass sf"
  using assms
  by (simp_all add: fun_eq_iff extractInterface_def extractTypeAlias_def extractEnum_def
        extractClass_def Let_def)

lemma parseFile_dropExcluded:
  assumes "rules ctx = r"
  shows "parseFile ad ctx (dropExcluded r sf) = parseFile ad ctx sf"
proof -
  have p: "getFilePath (dropExcluded r sf) = getFilePath sf"
    by (simp add: dropExcluded_def)
  have fields:
    "getInterfaces (dropExcluded r sf) =
       filter (\<lambda>d. \<not> excludedName r (iface_getName d)) (getInterfaces sf)"
    "getTypeAliases (dropExcluded r sf) =
       filter (\<lambda>d. \<not> excludedName r (alias_getName d)) (getTypeAliases sf)"
    "getEnums (dropExcluded r sf) =
       filter (\<lambda>d. \<not> excludedName r (enum_getName d)) (getEnums sf)"
    "getClasses (dropExcluded r sf) =
       filter (\<lambda>d. \<not> excludedName r (classNameOf d)) (getClasses sf)"
    by (simp_all add: dropExcluded_def)
  show ?thesis
    unfolding parseFile_def Let_def fields extract_path_only [OF p]
    using assms
    by (simp add: iface_loop alias_loop enum_loop class_loop)
qed

lemma parseFiles_facts:
  "rules (foldl (parseFile ad) ctx project) = rules ctx"
  "typesExtracted (metrics (foldl (parseFile ad) ctx project)) =
     typesExtracted (metrics ctx) + int (sum_list (map (extractedCount ad (rules ctx)) project))"
  "anyTypeViolations (metrics (foldl (parseFile ad) ctx project)) =
     anyTypeViolations (metrics ctx)"
  by (induction project arbitrary: ctx) (simp_all add: parseFile_facts)

lemma parseFiles_clean:
  "cleanTypes ctx \<Longrightarrow> \<forall>sf \<in> set project. noAnyInFile sf \<Longrightarrow>
     cleanTypes (foldl (parseFile ad) ctx project)"
  by (induction project arbitrary: ctx) (simp_all add: parseFile_clean)

lemma parseFiles_dropExcluded:
  "rules ctx = r \<Longrightarrow>
     foldl (parseFile ad) ctx (map (dropExcluded r) project) = foldl (parseFile ad) ctx project"
  by (induction project arbitrary: ctx) (simp_all add: parseFile_dropExcluded parseFile_facts)

lemma extractedCount_all_classes:
  "\<forall>d \<in> set (getClasses sf). shouldExtractClass ad d \<Longrightarrow>
     extractedCount ad r sf = nonExcludedCount r sf"
  by (auto simp: extractedCount_def nonExcludedCount_def intro: arg_cong [where f = length] filter_cong)

lemma detectAnyTypes_clean: "cleanTypes ctx \<Longrightarrow> detectAnyTypes ctx = Done ctx"
  by (simp add: detectAnyTypes_def detectAnyLoop_clean cleanTypes_def)

lemma testValidateTypes_keeps: "keepsCounters testValidateTypes"
proof -
  have "types (foldl f c ts) = types c \<and> metrics (foldl f c ts) = metrics c"
    if "\<And>c x. types (f c x) = types c \<and> metrics (f c x) = metrics c"
    for f :: "extraction_context \<Rightarrow> string \<times> extracted_type \<Rightarrow> extraction_context" and c ts
    using that by (induction ts arbitrary: c) simp_all
  then show ?thesis
    by (simp add: keepsCounters_def contextOf_def cleanTypes_def testValidateTypes_def
          addError_def split_beta)
qed

lemma addSourceFiles_dropExcluded:
  "addSourceFiles (dropExcludedParser r ps) paths p = addSourceFiles ps paths p"
  by (induction paths arbitrary: p)
     (simp_all add: dropExcludedParser_def split: add_result.splits)

text \<open>The two hooks and the guard, run on a context without a whole-word \<open>any\<close>.\<close>

lemma hooks_and_guard_counters:
  assumes h1: "keepsCounters h1" and h2: "keepsCounters h2" and clean: "cleanTypes c"
  shows "typesExtracted (metrics (contextOf (andThen (andThen (h1 c) h2) detectAnyTypes))) =
           typesExtracted (metrics c)"
    and "anyTypeViolations (metrics (contextOf (andThen (andThen (h1 c) h2) detectAnyTypes))) =
           anyTypeViolations (metrics c)"
proof -
  note k1 = h1 [unfolded keepsCounters_def, rule_format, of c]
  show "typesExtracted (metrics (contextOf (andThen (andThen (h1 c) h2) detectAnyTypes))) =
           typesExtracted (metrics c)"
  proof (cases "h1 c")
    case (Thrown msg c2)
    with k1 show ?thesis by (simp add: andThen_def contextOf_def)
  next
    case d1: (Done c2)
    note k2 = h2 [unfolded keepsCounters_def, rule_format, of c2]
    from k1 d1 clean have c2: "typesExtracted (metrics c2) = typesExtracted (metrics c)"
      "cleanTypes c2" by (simp_all add: contextOf_def)
    show ?thesis
    proof (cases "h2 c2")
      case (Thrown msg c3)
      with k2 d1 c2 show ?thesis by (simp add: andThen_def contextOf_def)
    next
      case (Done c3)
      with k2 c2 have "typesExtracted (metrics c3) = typesExtracted (metrics c)" "cleanTypes c3"
        by (simp_all add: contextOf_def)
      with d1 Done show ?thesis
        by (simp add: andThen_def contextOf_def detectAnyTypes_clean)
    qed
  qed
  show "anyTypeViolations (metrics (contextOf (andThen (andThen (h1 c) h2) detectAnyTypes))) =
           anyTypeViolations (metrics c)"
  proof (cases "h1 c")
    case (Thrown msg c2)
    with k1 show ?thesis by (simp add: andThen_def contextOf_def)
  next
    case d1: (Done c2)
    note k2 = h2 [unfolded keepsCounters_def, rule_format, of c2]
    from k1 d1 clean have c2: "anyTypeViolations (metrics c2) = anyTypeViolations (metrics c)"
      "cleanTypes c2" by (simp_all add: contextOf_def)
    show ?thesis
    proof (cases "h2 c2")
      case (Thrown msg c3)
      with k2 d1 c2 show ?thesis by (simp add: andThen_def contextOf_def)
    next
      case (Done c3)
      with k2 c2 have "anyTypeViolations (metrics c3) = anyTypeViolations (metrics c)"
        "cleanTypes c3"
        by (simp_all add: contextOf_def)
      with d1 Done show ?thesis
        by (simp add: andThen_def contextOf_def detectAnyTypes_clean)
    qed
  qed
qed

lemma extract_types_metrics:
  "metrics (resultContext (fst (extract_types ps ad paths ex))) =
     metrics (contextOf (fst (extractTry ps ad paths
        ((extractor_context ex)\<lparr>sourceFiles := paths\<rparr>) (extractor_project ex))))"
  by (simp add: extract_types_def contextOf_def addError_def Let_def
        split: prod.splits outcome.splits)

text \<open>
  C8 (as amended). \<open>extract\<close> is called on an extractor, new or used before, whose stored
  types hold no whole-word \<open>any\<close>. When every path can be added, no declaration of the
  project's files holds a whole-word \<open>any\<close> anywhere in its full text, comments included, and
  the two adapter hooks leave the two metrics as they are and bring no \<open>any\<close> into the
  types, then \<open>extract\<close> returns normally, \<open>typesExtracted\<close> has grown by the number of
  declarations of the project's files that the extractor stores (the interfaces, type
  aliases, enums and adapter-accepted classes whose name is not in \<open>excludeTypes\<close>), and
  \<open>anyTypeViolations\<close> is what it was. On a new extractor these are that number and 0; on a
  used one the earlier counts stay in, and the files of the earlier calls are parsed and
  counted again. The numbers are the program's while \<open>typesExtracted\<close> is a safe integer.
  An excluded declaration contributes nothing: with the excluded declarations taken out of
  the files the call gives the very same result, metrics and errors included.
\<close>

theorem extract_counts_declarations:
  assumes loaded: "addSourceFiles ps paths (extractor_project ex) = Added p"
    and stored: "cleanTypes (extractor_context ex)"
    and noany: "\<forall>sf \<in> set (getSourceFiles ps p). noAnyInFile sf"
    and hooks: "keepsCounters (applyTransformations ad)" "keepsCounters (validateTypes ad)"
    and range: "safeInteger (typesExtracted (metrics (extractor_context ex)))"
      "safeInteger (typesExtracted (metrics (extractor_context ex)) +
         int (sum_list (map (extractedCount ad (rules (extractor_context ex)))
                            (getSourceFiles ps p))))"
  shows "is_Done (fst (extract_types ps ad paths ex)) \<and>
         typesExtracted (metrics (resultContext (fst (extract_types ps ad paths ex)))) =
           typesExtracted (metrics (extractor_context ex)) +
           int (sum_list (map (extractedCount ad (rules (extractor_context ex)))
                              (getSourceFiles ps p))) \<and>
         anyTypeViolations (metrics (resultContext (fst (extract_types ps ad paths ex)))) =
           anyTypeViolations (metrics (extractor_context ex)) \<and>
         extract_types (dropExcludedParser (rules (extractor_context ex)) ps) ad paths ex =
           extract_types ps ad paths ex"
proof -
  let ?c0 = "(extractor_context ex)\<lparr>sourceFiles := paths\<rparr>"
  let ?r = "rules (extractor_context ex)"
  let ?c1 = "foldl (parseFile ad) ?c0 (getSourceFiles ps p)"
  have r0: "rules ?c0 = ?r" and cl0: "cleanTypes ?c0"
    using stored by (simp_all add: cleanTypes_def)
  have t1: "typesExtracted (metrics ?c1) =
      typesExtracted (metrics (extractor_context ex)) +
      int (sum_list (map (extractedCount ad ?r) (getSourceFiles ps p)))"
    using parseFiles_facts(2) [of ad ?c0 "getSourceFiles ps p"] by simp
  have a1: "anyTypeViolations (metrics ?c1) = anyTypeViolations (metrics (extractor_context ex))"
    using parseFiles_facts(3) [of ad ?c0 "getSourceFiles ps p"] by simp
  have cl1: "cleanTypes ?c1"
    using cl0 noany by (rule parseFiles_clean)
  have body: "fst (extractTry ps ad paths ?c0 (extractor_project ex)) =
      andThen (andThen (applyTransformations ad ?c1) (validateTypes ad)) detectAnyTypes"
    by (simp add: extractTry_def loaded)
  have returns: "is_Done (fst (extract_types ps ad paths ex))"
    by (simp add: extract_types_def Let_def split: prod.splits outcome.splits)
  have same: "extractTry (dropExcludedParser ?r ps) ad paths ?c0 (extractor_project ex) =
      extractTry ps ad paths ?c0 (extractor_project ex)"
    by (simp add: extractTry_def addSourceFiles_dropExcluded parseFiles_dropExcluded [OF r0]
          split: add_result.splits)
       (simp add: dropExcludedParser_def parseFiles_dropExcluded [OF r0])
  have same': "extract_types (dropExcludedParser ?r ps) ad paths ex = extract_types ps ad paths ex"
    by (simp add: extract_types_def same)
  show ?thesis
    using returns t1 a1 same' hooks_and_guard_counters [OF hooks cl1]
    by (simp add: extract_types_metrics body)
qed

theorem extract_counts_declarations_witness:
  "extractedCount testExtractor exampleRules cleanFile = 2 \<and>
   nonExcludedCount exampleRules cleanFile = 2 \<and>
   is_Done (fst (extract_types cleanParser testExtractor [''/src/clean.ts'']
                   (newExtractor cleanParser exampleRules 1000))) \<and>
   typesExtracted (metrics (resultContext (fst
     (extract_types cleanParser testExtractor [''/src/clean.ts'']
        (newExtractor cleanParser exampleRules 1000))))) = 2 \<and>
   anyTypeViolations (metrics (resultContext (fst
     (extract_types cleanParser testExtractor [''/src/clean.ts'']
        (newExtractor cleanParser exampleRules 1000))))) = 0 \<and>
   extract_types (dropExcludedParser exampleRules cleanParser) testExtractor [''/src/clean.ts'']
       (newExtractor cleanParser exampleRules 1000) =
     extract_types cleanParser testExtractor [''/src/clean.ts'']
       (newExtractor cleanParser exampleRules 1000) \<and>
   typesExtracted (metrics (resultContext (fst
     (extract_types cleanParser testExtractor [''/src/clean.ts'']
        (snd (extract_types cleanParser testExtractor [''/src/clean.ts'']
                (newExtractor cleanParser exampleRules 1000))))))) = 4"
proof -
  let ?ex0 = "newExtractor cleanParser exampleRules 1000 :: source_file list extractor"
  let ?ex1 = "snd (extract_types cleanParser testExtractor [''/src/clean.ts''] ?ex0)"
  have n: "extractedCount testExtractor exampleRules cleanFile = 2"
    "nonExcludedCount exampleRules cleanFile = 2"
    by code_simp+
  have files: "getSourceFiles cleanParser [cleanFile] = [cleanFile]"
    by (simp add: cleanParser_def diskParser_def)
  have clean: "noAnyInFile cleanFile"
    by code_simp
  then have h3: "\<forall>sf \<in> set (getSourceFiles cleanParser [cleanFile]). noAnyInFile sf"
    by (simp add: files)
  have h4: "keepsCounters (applyTransformations testExtractor)"
    by (simp add: keepsCounters_def contextOf_def testExtractor_def)
  have h5: "keepsCounters (validateTypes testExtractor)"
    by (simp add: testExtractor_def testValidateTypes_keeps)
  have a0: "addSourceFiles cleanParser [''/src/clean.ts''] (extractor_project ?ex0) = Added [cleanFile]"
    by (simp add: newExtractor_def cleanParser_def diskParser_def)
  have s0: "cleanTypes (extractor_context ?ex0)"
    by (simp add: newExtractor_def newContext_def cleanTypes_def)
  have m0: "typesExtracted (metrics (extractor_context ?ex0)) = 0"
    "anyTypeViolations (metrics (extractor_context ?ex0)) = 0"
    "rules (extractor_context ?ex0) = exampleRules"
    by (simp_all add: newExtractor_def newContext_def)
  have r0: "safeInteger (typesExtracted (metrics (extractor_context ?ex0)))"
     "safeInteger (typesExtracted (metrics (extractor_context ?ex0)) +
         int (sum_list (map (extractedCount testExtractor (rules (extractor_context ?ex0)))
                            (getSourceFiles cleanParser [cleanFile]))))"
    by (simp_all add: m0 files n safeInteger_def)
  note first = extract_counts_declarations [OF a0 s0 h3 h4 h5 r0]
  have p1: "extractor_project ?ex1 = [cleanFile]"
    by code_simp
  have a1: "addSourceFiles cleanParser [''/src/clean.ts''] (extractor_project ?ex1) = Added [cleanFile]"
    unfolding p1 by (simp add: cleanParser_def diskParser_def cleanFile_def)
  have s1: "cleanTypes (extractor_context ?ex1)"
    by code_simp
  have m1: "typesExtracted (metrics (extractor_context ?ex1)) = 2"
    "rules (extractor_context ?ex1) = exampleRules"
    by code_simp+
  have r1: "safeInteger (typesExtracted (metrics (extractor_context ?ex1)))"
     "safeInteger (typesExtracted (metrics (extractor_context ?ex1)) +
         int (sum_list (map (extractedCount testExtractor (rules (extractor_context ?ex1)))
                            (getSourceFiles cleanParser [cleanFile]))))"
    by (simp_all add: m1 files n safeInteger_def)
  note second = extract_counts_declarations [OF a1 s1 h3 h4 h5 r1]
  from first second n show ?thesis
    by (simp add: m0 m1 files)
qed

text \<open>
  C8 as stated fails: the file of one fully annotated interface, with no \<open>any\<close> among its
  types and the word \<open>any\<close> in its comment, is extracted with one violation and two error
  entries.
\<close>

theorem comment_any_is_a_violation_counterexample:
  "map sig_typeNodeText (getProperties basketDecl) = [Some ''string[]''] \<and>
   nonExcludedCount exampleRules basketFile = 1 \<and>
   typesExtracted (metrics (resultContext (fst
     (extract_types basketParser testExtractor [''/src/basket.ts'']
        (newExtractor basketParser exampleRules 1000))))) = 1 \<and>
   anyTypeViolations (metrics (resultContext (fst
     (extract_types basketParser testExtractor [''/src/basket.ts'']
        (newExtractor basketParser exampleRules 1000))))) = 1 \<and>
   map message (errors (resultContext (fst
     (extract_types basketParser testExtractor [''/src/basket.ts'']
        (newExtractor basketParser exampleRules 1000))))) =
     [''Type 'Basket' contains 'any' type: /** Holds any number of items.. Use a specific type or branded unknown instead.'',
      ''Extraction failed: Extraction failed: 1 'any' type violations found. See errors for details.'']"
  by code_simp


section \<open>Drift detection\<close>

lemma matchExportAt_chars:
  assumes "matchExportAt s = Some (nm, n)"
  shows "set nm \<subseteq> set s"
proof -
  have tw: "set (takeWhile P a) \<subseteq> set a" for P and a :: string
    by (auto dest: set_takeWhileD)
  have dw: "set (dropWhile P a) \<subseteq> set a" for P and a :: string
    by (auto dest: set_dropWhileD)
  have dr: "set (drop k a) \<subseteq> set a" for k and a :: string
    by (rule set_drop_subset)
  have sub: "set (takeWhile P (dropWhile Q (drop k (dropWhile Q (drop 6 s))))) \<subseteq> set s" for P Q k
    using tw [of P "dropWhile Q (drop k (dropWhile Q (drop 6 s)))"]
      dw [of Q "drop k (dropWhile Q (drop 6 s))"] dr [of k "dropWhile Q (drop 6 s)"]
      dw [of Q "drop 6 s"] dr [of 6 s]
    by blast
  define s2 where "s2 = dropWhile isWhiteSpace (drop 6 s)"
  define kw where "kw = (if startsWith s2 ''interface'' then Some (drop 9 s2)
                 else if startsWith s2 ''type'' then Some (drop 4 s2)
                 else if startsWith s2 ''enum'' then Some (drop 4 s2)
                 else None)"
  from assms obtain s3 where s3: "kw = Some s3"
    and nm: "nm = takeWhile isWordChar (dropWhile isWhiteSpace s3)"
    unfolding matchExportAt_def Let_def s2_def [symmetric] kw_def [symmetric]
    by (cases kw; cases "startsWith s ''export''"; cases "takeWhile isWhiteSpace (drop 6 s) = []";
        simp split: if_splits)
  from s3 have "s3 = drop 9 s2 \<or> s3 = drop 4 s2"
    unfolding kw_def by (simp split: if_splits)
  with nm sub [of isWordChar isWhiteSpace 9] sub [of isWordChar isWhiteSpace 4]
  show ?thesis unfolding s2_def by auto
qed

lemma extractNamesFrom_chars:
  "nm \<in> set (extractNamesFrom s) \<Longrightarrow> set nm \<subseteq> set s"
proof (induction s arbitrary: nm rule: extractNamesFrom.induct)
  case 1
  then show ?case by simp
next
  case (2 c cs)
  show ?case
  proof (cases "matchExportAt (c # cs)")
    case None
    with 2(1) [OF None] 2(3) show ?thesis by auto
  next
    case (Some p)
    obtain nm' n where p: "p = (nm', n)" by (cases p)
    from 2(3) Some p have "nm = nm' \<or> nm \<in> set (extractNamesFrom (drop (n - 1) cs))"
      by simp
    then show ?thesis
    proof
      assume "nm = nm'"
      with matchExportAt_chars Some p show ?thesis by blast
    next
      assume "nm \<in> set (extractNamesFrom (drop (n - 1) cs))"
      with 2(2) [OF Some p [symmetric]] have "set nm \<subseteq> set (drop (n - 1) cs)" by blast
      then show ?thesis by (meson in_set_dropD set_subset_Cons subset_iff)
    qed
  qed
qed

lemma names_after_declaration:
  "extractNamesFrom exampleOld = ''Q'' # extractNamesFrom exampleNew"
  by (simp add: exampleOld_def matchExportAt_def startsWith_def isWhiteSpace_def isWordChar_def)


lemma no_Q_showInt: "CHR ''Q'' \<notin> set (showInt i)"
  using showNat_digits [of "CHR ''Q''"]
  by (auto simp: showInt_def less_eq_char_def)

lemma no_Q_in_exampleNew: "CHR ''Q'' \<notin> set exampleNew"
  by (simp add: exampleNew_def generateContractsFile_def Let_def no_Q_showInt checkMark_def
        contractSection_def groupTypesByKindForContract_def sortBy_def driftContext_def
        exampleContext_def
        newContext_def exampleRules_def goodType_def exampleType_def exampleRfcConfig_def
        clockA_def orElse_def generateInterfaceForContract_def contractDocBlock_def truthy_def)



lemma detectDrift_different:
  assumes "readFileSync fs (outputPath cfg) = Some old"
    and "old \<noteq> generateContractsFile pf cfg ctx clk"
  shows "detectDrift pf cfg ctx clk fs =
     \<lparr>hasDrift = (addedNames old (generateContractsFile pf cfg ctx clk) \<noteq> [] \<or>
                  removedNames old (generateContractsFile pf cfg ctx clk) \<noteq> []),
      summary =
        (if addedNames old (generateContractsFile pf cfg ctx clk) = [] \<and>
            removedNames old (generateContractsFile pf cfg ctx clk) = []
         then ''Types modified but names unchanged''
         else (if addedNames old (generateContractsFile pf cfg ctx clk) \<noteq> []
               then ''Added types: '' @
                    join '', '' (addedNames old (generateContractsFile pf cfg ctx clk)) @ ''\<newline>''
               else []) @
              (if removedNames old (generateContractsFile pf cfg ctx clk) \<noteq> []
               then ''Removed types: '' @
                    join '', '' (removedNames old (generateContractsFile pf cfg ctx clk)) @ ''\<newline>''
               else []))\<rparr>"
  using assms
  by (simp add: detectDrift_def Let_def addedNames_def removedNames_def)






lemma exampleNew_alt:
  "generateContractsFile examplePlatform exampleRfcConfig driftContext clockA = exampleNew"
  by (simp add: exampleNew_def)

lemma Q_not_extracted: "''Q'' \<notin> set (extractNamesFrom exampleNew)"
  using extractNamesFrom_chars [of "''Q''" exampleNew] no_Q_in_exampleNew by auto

lemma example_removed: "removedNames exampleOld exampleNew = [''Q'']"
proof -
  have "removedNames exampleOld exampleNew =
          filter (\<lambda>t. t \<notin> set (extractNamesFrom exampleNew))
                 (sort (''Q'' # extractNamesFrom exampleNew))"
    by (simp add: removedNames_def extractTypeNames_def names_after_declaration
          del: sort_key_simps)
  also have "\<dots> = sort (filter (\<lambda>t. t \<notin> set (extractNamesFrom exampleNew))
                           (''Q'' # extractNamesFrom exampleNew))"
    by (rule filter_sort)
  also have "\<dots> = [''Q'']"
    using Q_not_extracted by simp
  finally show ?thesis .
qed

lemma example_added: "addedNames exampleOld exampleNew = []"
  by (simp add: addedNames_def extractTypeNames_def names_after_declaration del: sort_key_simps)

lemma example_old_differs: "exampleOld \<noteq> exampleNew"
  by (simp add: exampleOld_def)

lemma example_read:
  "readFileSync (fileSystemWith content) (outputPath exampleRfcConfig) = Some content"
  by (simp add: readFileSync_def fileSystemWith_def exampleRfcConfig_def)

lemma example_drift:
  "detectDrift examplePlatform exampleRfcConfig driftContext clockA (fileSystemWith exampleOld) =
     \<lparr>hasDrift = True, summary = ''Removed types: Q\<newline>''\<rparr>"
  using detectDrift_different [of "fileSystemWith exampleOld" exampleRfcConfig exampleOld
          examplePlatform driftContext clockA]
  by (simp add: example_read exampleNew_alt example_old_differs example_removed example_added)




section \<open>Generation with fail-on-drift\<close>

lemma detectDrift_mkdirSync:
  "detectDrift pf cfg ctx clk (mkdirSync fs d) = detectDrift pf cfg ctx clk fs"
  by (simp add: detectDrift_def readFileSync_def mkdirSync_def)

text \<open>
  C2. With fail-on-drift enabled and drift detected, \<open>generate\<close> throws the error that
  carries the summary of added and removed names, and it does so before any write: the
  file system at the throw has gained the output directory only, and every file, the
  committed contracts file and the extraction map among them, is as it was.
\<close>

theorem generate_aborts_on_drift:
  assumes "failOnDrift cfg = Some True"
    and "hasDrift (detectDrift pf cfg ctx clk1 fs)"
  shows "generate pf cfg ctx clk1 clk2 clk3 fs =
           GenerateThrown (''Type drift detected:\<newline>'' @ summary (detectDrift pf cfg ctx clk1 fs))
             (mkdirSync fs (dirname pf (outputPath cfg))) \<and>
         files (filesAtThrow (generate pf cfg ctx clk1 clk2 clk3 fs)) = files fs"
proof -
  have "files fs (outputPath cfg) \<noteq> None"
  proof
    assume "files fs (outputPath cfg) = None"
    then have "\<not> hasDrift (detectDrift pf cfg ctx clk1 fs)"
      by (simp add: detectDrift_def readFileSync_def)
    with assms(2) show False by simp
  qed
  then have "existsSync (mkdirSync fs (dirname pf (outputPath cfg))) (outputPath cfg)"
    by (simp add: existsSync_def mkdirSync_def)
  with assms show ?thesis
    by (simp add: generate_def Let_def detectDrift_mkdirSync) (simp add: mkdirSync_def)
qed

theorem generate_aborts_on_drift_witness:
  "failOnDrift exampleRfcConfig = Some True \<and>
   hasDrift (detectDrift examplePlatform exampleRfcConfig driftContext clockA
               (fileSystemWith exampleOld)) \<and>
   generate examplePlatform exampleRfcConfig driftContext clockA clockB clockB
       (fileSystemWith exampleOld) =
     GenerateThrown ''Type drift detected:\<newline>Removed types: Q\<newline>'' (fileSystemWith exampleOld) \<and>
   files (filesAtThrow (generate examplePlatform exampleRfcConfig driftContext clockA clockB clockB
       (fileSystemWith exampleOld))) = [''/out/third-party-contracts.d.ts'' \<mapsto> exampleOld]"
proof -
  have h1: "failOnDrift exampleRfcConfig = Some True"
    by (simp add: exampleRfcConfig_def)
  have h2: "hasDrift (detectDrift examplePlatform exampleRfcConfig driftContext clockA
               (fileSystemWith exampleOld))"
    by (simp add: example_drift)
  have dir: "mkdirSync (fileSystemWith exampleOld)
               (dirname examplePlatform (outputPath exampleRfcConfig)) = fileSystemWith exampleOld"
    by (simp add: mkdirSync_def fileSystemWith_def examplePlatform_def)
  from generate_aborts_on_drift [OF h1 h2, of clockB clockB] h1 h2 show ?thesis
    by (simp add: example_drift dir) (simp add: fileSystemWith_def)
qed


end
